theory Spec2Isabelle
  imports Main "HOL-Library.Word"
begin

section \<open>JavaScript values and the native layer\<close>

text \<open>
  The values that cross the bridge.  A JavaScript number that comes from the FFI is an
  integer (\<open>uint32\<close> callback arguments, the integer status a native function returns),
  so numbers are \<open>int\<close>.  \<open>any\<close>-typed fields (\<open>IRecord.value\<close>, \<open>IRecord.tags\<close>) and
  thrown values are arbitrary values.
\<close>

datatype jsval =
    JUndefined
  | JNull
  | JNum int
  | JStr string
  | JArr "jsval list"
  | JObj "(string \<times> jsval) list"

text \<open>
  What the native layer passes to a completion callback: the command handle
  (\<open>xhandle\<close>), the error code, and the result field (\<open>JUndefined\<close> when the native
  signature has none).  The first two are declared \<open>uint32\<close> at every call site.
\<close>

type_synonym cb_args = "32 word \<times> 32 word \<times> jsval"

text \<open>
  The native library is not part of the sources: a native entry point is a parameter.
  For a given argument list it returns its immediate \<open>status\<close> and, afterwards, invokes
  the completion callback it was handed once for every element of \<open>callbacks\<close>, in that
  order.  Nothing is assumed on how often that is.
\<close>

record native_reply =
  status :: int
  callbacks :: "cb_args list"

text \<open>
  The collaborators of the two source files that are not among the sources, as
  parameters: \<open>rustAPI()\<close> (the loaded native interface, indexed by entry-point name;
  it is taken to be loaded), \<open>VCXBase.errorMessage\<close>, \<open>initRustAPI\<close> (\<open>Some e\<close>: it
  throws \<open>e\<close>) and the built-in \<open>JSON.stringify\<close>.
\<close>

record env =
  rustAPI :: "string \<Rightarrow> jsval list \<Rightarrow> native_reply"
  errorMessage :: "jsval \<Rightarrow> string"
  initRustAPI :: "string option \<Rightarrow> jsval option"
  JSON_stringify :: "jsval \<Rightarrow> jsval"

section \<open>Promises and the callback bridge\<close>

datatype settlement = Pending | Fulfilled jsval | Rejected jsval

datatype attempt = Resolve jsval | Reject jsval

text \<open>
  The Promise one bridged call creates, with two logs that the program cannot read:
  every call of \<open>resolve\<close>/\<open>reject\<close> made on it (\<open>attempts\<close>) and every native call
  made for it (\<open>ffi_calls\<close>, entry-point name and arguments).
\<close>

record bridge =
  state :: settlement
  attempts :: "attempt list"
  ffi_calls :: "(string \<times> jsval list) list"

type_synonym task = "bridge \<Rightarrow> bridge"

definition new_promise :: bridge where
  "new_promise = \<lparr>state = Pending, attempts = [], ffi_calls = []\<rparr>"

text \<open>
  The resolving functions of a JavaScript Promise: the first call settles it, every
  later call leaves the settled state as it is.
\<close>

definition resolve :: "jsval \<Rightarrow> task" where
  "resolve v b =
     b\<lparr>state := (case state b of Pending \<Rightarrow> Fulfilled v | s \<Rightarrow> s),
       attempts := attempts b @ [Resolve v]\<rparr>"

definition reject :: "jsval \<Rightarrow> task" where
  "reject e b =
     b\<lparr>state := (case state b of Pending \<Rightarrow> Rejected e | s \<Rightarrow> s),
       attempts := attempts b @ [Reject e]\<rparr>"

definition skip :: task where
  "skip b = b"

text \<open>
  \<open>const rc = rustAPI().name(args, cb); rest\<close>: the call is made (and logged), the rest
  of the calling closure runs with the returned status, and afterwards the native
  layer invokes \<open>cb\<close> as its reply says.  The result is the sequence of steps taken on
  the Promise.
\<close>

definition native_call ::
  "env \<Rightarrow> string \<Rightarrow> jsval list \<Rightarrow> (cb_args \<Rightarrow> task) \<Rightarrow> (int \<Rightarrow> task) \<Rightarrow> task list" where
  "native_call e name args cb rest =
     (let r = rustAPI e name args
      in (\<lambda>b. b\<lparr>ffi_calls := ffi_calls b @ [(name, args)]\<rparr>) # rest (status r) # map cb (callbacks r))"

text \<open>
  \<open>ffi.Callback(retType, argTypes, fn)\<close>: the JavaScript function receives as many
  arguments as \<open>argTypes\<close> declares.
\<close>

definition Callback :: "string \<Rightarrow> string list \<Rightarrow> (cb_args \<Rightarrow> task) \<Rightarrow> cb_args \<Rightarrow> task" where
  "Callback retType argTypes f =
     (\<lambda>(xhandle, err, result).
        f (xhandle, err, if length argTypes < 3 then JUndefined else result))"

text \<open>
  Modelled from the spec: \<open>createFFICallbackPromise\<close> of \<open>utils/ffi-helpers\<close>, which the
  sources import but do not contain.  The Callback Bridge of the spec (section 4.1)
  creates the pending call before the native call can complete, hands the submitting
  closure the completion sink (\<open>resolve\<close>, \<open>reject\<close>) and the trampoline built from the
  same sink, and the caller waits until the sink is used.  The two closures are those
  of the call sites: \<open>fn (resolve, reject, cb)\<close> and \<open>cb (resolve, reject)\<close>.
\<close>

definition createFFICallbackPromise ::
  "((jsval \<Rightarrow> task) \<Rightarrow> (jsval \<Rightarrow> task) \<Rightarrow> (cb_args \<Rightarrow> task) \<Rightarrow> task list) \<Rightarrow>
   ((jsval \<Rightarrow> task) \<Rightarrow> (jsval \<Rightarrow> task) \<Rightarrow> cb_args \<Rightarrow> task) \<Rightarrow> bridge" where
  "createFFICallbackPromise fn cb =
     fold (\<lambda>t. t) (fn resolve reject (cb resolve reject)) new_promise"

section \<open>Errors and outcomes of an async function\<close>

text \<open>
  The class \<open>VCXInternalError\<close> is not among the sources; an error value is the
  arguments its constructor is called with: the caught value, and the message and the
  native function name where the call site passes them.
\<close>

datatype vcx_error =
  VCXInternalError (vcxCode: jsval) (vcxMessage: "string option") (vcxFunction: "string option")

text \<open>
  What the Promise returned by an \<open>async\<close> function does: it resolves with a value, it
  rejects with the error thrown, or it never settles (the awaited Promise stays
  pending).
\<close>

datatype outcome = Returns jsval | Throws vcx_error | NeverSettles

section \<open>api/utils.ts\<close>

text \<open>
  Each async function is two definitions: \<open>f_promise\<close>, the Promise that its call of
  \<open>createFFICallbackPromise\<close> creates, and \<open>f\<close>, what the async function does with it
  (the \<open>await\<close> inside \<open>try\<close>/\<open>catch\<close>).  \<open>if (rc)\<close> and \<open>if (err)\<close> test a number:
  they hold when it is not 0.
\<close>

record iInitVCXOptions =
  libVCXPath :: "string option"

definition provisionAgent_promise :: "env \<Rightarrow> string \<Rightarrow> bridge" where
  "provisionAgent_promise e configAgent =
     createFFICallbackPromise
       (\<lambda>resolve reject cb.
          native_call e ''vcx_agent_provision_async'' [JNum 0, JStr configAgent] cb
            (\<lambda>rc. if rc \<noteq> 0 then reject (JNum rc) else skip))
       (\<lambda>resolve reject. Callback ''void'' [''uint32'', ''uint32'', ''string'']
          (\<lambda>(xhandle, err, config).
             if err \<noteq> 0 then reject (JNum (uint err)) else resolve config))"

definition provisionAgent :: "env \<Rightarrow> string \<Rightarrow> iInitVCXOptions \<Rightarrow> outcome" where
  "provisionAgent e configAgent options =
     (case initRustAPI e (libVCXPath options) of
        Some thrown \<Rightarrow> Throws (VCXInternalError thrown None None)
      | None \<Rightarrow>
          (case state (provisionAgent_promise e configAgent) of
             Fulfilled v \<Rightarrow> Returns v
           | Rejected err \<Rightarrow> Throws (VCXInternalError err None None)
           | Pending \<Rightarrow> NeverSettles))"

definition updateAgentInfo_promise :: "env \<Rightarrow> string \<Rightarrow> bridge" where
  "updateAgentInfo_promise e options =
     createFFICallbackPromise
       (\<lambda>resolve reject cb.
          native_call e ''vcx_agent_update_info'' [JNum 0, JStr options] cb
            (\<lambda>rc. if rc \<noteq> 0 then reject (JNum rc) else skip))
       (\<lambda>resolve reject. Callback ''void'' [''uint32'', ''uint32'', ''string'']
          (\<lambda>(xhandle, err, config).
             if err \<noteq> 0 then reject (JNum (uint err)) else resolve config))"

definition updateAgentInfo :: "env \<Rightarrow> string \<Rightarrow> outcome" where
  "updateAgentInfo e options =
     (case state (updateAgentInfo_promise e options) of
        Fulfilled v \<Rightarrow> Returns v
      | Rejected err \<Rightarrow> Throws (VCXInternalError err None None)
      | Pending \<Rightarrow> NeverSettles)"

definition getLedgerFees_promise :: "env \<Rightarrow> bridge" where
  "getLedgerFees_promise e =
     createFFICallbackPromise
       (\<lambda>resolve reject cb.
          native_call e ''vcx_ledger_get_fees'' [JNum 0] cb
            (\<lambda>rc. if rc \<noteq> 0 then reject (JNum rc) else skip))
       (\<lambda>resolve reject. Callback ''void'' [''uint32'', ''uint32'', ''string'']
          (\<lambda>(xhandle, err, fees).
             if err \<noteq> 0 then reject (JNum (uint err)) else resolve fees))"

definition getLedgerFees :: "env \<Rightarrow> outcome" where
  "getLedgerFees e =
     (case state (getLedgerFees_promise e) of
        Fulfilled ledgerFees \<Rightarrow> Returns ledgerFees
      | Rejected err \<Rightarrow> Throws (VCXInternalError err None None)
      | Pending \<Rightarrow> NeverSettles)"

record iUpdateInstitutionConfigs =
  name :: string
  logoUrl :: string

text \<open>
  \<open>updateInstitutionConfigs\<close> is synchronous: the native function takes no callback,
  and the function returns the status or throws.
\<close>

definition updateInstitutionConfigs :: "env \<Rightarrow> iUpdateInstitutionConfigs \<Rightarrow> vcx_error + int" where
  "updateInstitutionConfigs e cfg =
     (let rc = status (rustAPI e ''vcx_update_institution_info'' [JStr (name cfg), JStr (logoUrl cfg)])
      in if rc \<noteq> 0 then Inl (VCXInternalError (JNum rc) None None) else Inr rc)"

text \<open>
  \<open>IDownloadMessagesConfigs\<close>; its field \<open>status\<close> is \<open>msgStatus\<close> here, apart from the
  \<open>status\<close> of a native reply.
\<close>

record iDownloadMessagesConfigs =
  msgStatus :: string
  uids :: string
  pairwiseDids :: string

definition downloadMessages_promise :: "env \<Rightarrow> iDownloadMessagesConfigs \<Rightarrow> bridge" where
  "downloadMessages_promise e cfg =
     createFFICallbackPromise
       (\<lambda>resolve reject cb.
          native_call e ''vcx_messages_download''
            [JNum 0, JStr (msgStatus cfg), JStr (uids cfg), JStr (pairwiseDids cfg)] cb
            (\<lambda>rc. if rc \<noteq> 0 then reject (JNum rc) else skip))
       (\<lambda>resolve reject. Callback ''void'' [''uint32'', ''uint32'', ''string'']
          (\<lambda>(xhandle, err, messages).
             if err \<noteq> 0 then reject (JNum (uint err)) else resolve messages))"

definition downloadMessages :: "env \<Rightarrow> iDownloadMessagesConfigs \<Rightarrow> outcome" where
  "downloadMessages e cfg =
     (case state (downloadMessages_promise e cfg) of
        Fulfilled v \<Rightarrow> Returns v
      | Rejected err \<Rightarrow> Throws (VCXInternalError err None None)
      | Pending \<Rightarrow> NeverSettles)"

record iUpdateMessagesConfigs =
  msgJson :: string

definition updateMessages_promise :: "env \<Rightarrow> iUpdateMessagesConfigs \<Rightarrow> bridge" where
  "updateMessages_promise e cfg =
     createFFICallbackPromise
       (\<lambda>resolve reject cb.
          native_call e ''vcx_messages_update_status'' [JNum 0, JStr ''MS-106'', JStr (msgJson cfg)] cb
            (\<lambda>rc. if rc \<noteq> 0 then reject (JNum rc) else skip))
       (\<lambda>resolve reject. Callback ''void'' [''uint32'', ''uint32'']
          (\<lambda>(xhandle, err, _).
             if err \<noteq> 0 then reject (JNum (uint err)) else resolve (JNum (uint err))))"

definition updateMessages :: "env \<Rightarrow> iUpdateMessagesConfigs \<Rightarrow> outcome" where
  "updateMessages e cfg =
     (case state (updateMessages_promise e cfg) of
        Fulfilled v \<Rightarrow> Returns v
      | Rejected err \<Rightarrow> Throws (VCXInternalError err None None)
      | Pending \<Rightarrow> NeverSettles)"

section \<open>api/wallet.ts\<close>

text \<open>
  \<open>IRecord\<close>.  Its fields are \<open>type_\<close>, \<open>id\<close>, \<open>value\<close> and \<open>tags\<close>; the names are
  prefixed here because \<open>id\<close> and \<open>value\<close> are taken in Isabelle.
\<close>

record iRecord =
  record_type :: string
  record_id :: string
  record_value :: jsval
  record_tags :: jsval

text \<open>
  The operations that \<open>return await\<close> the bridged Promise return its value.  Those
  declared \<open>Promise<void>\<close> only \<open>await\<close> it: the value it was resolved with is
  dropped and the async function returns \<open>undefined\<close>.
\<close>

definition getTokenInfo_promise :: "env \<Rightarrow> int \<Rightarrow> bridge" where
  "getTokenInfo_promise e handle =
     createFFICallbackPromise
       (\<lambda>resolve reject cb.
          native_call e ''vcx_wallet_get_token_info''
            [JNum 0, JNum handle] cb
            (\<lambda>rc. if rc \<noteq> 0 then reject (JNum rc) else skip))
       (\<lambda>resolve reject. Callback ''void'' [''uint32'', ''uint32'', ''string'']
          (\<lambda>(xhandle, err, info).
             if err \<noteq> 0 then reject (JNum (uint err)) else resolve info))"

definition getTokenInfo :: "env \<Rightarrow> int \<Rightarrow> outcome" where
  "getTokenInfo e handle =
     (case state (getTokenInfo_promise e handle) of
        Fulfilled v \<Rightarrow> Returns v
      | Rejected err \<Rightarrow>
          Throws (VCXInternalError err (Some (errorMessage e err)) (Some ''vcx_wallet_get_token_info''))
      | Pending \<Rightarrow> NeverSettles)"

definition sendTokens_promise :: "env \<Rightarrow> int \<Rightarrow> int \<Rightarrow> string \<Rightarrow> bridge" where
  "sendTokens_promise e payment tokens recipient =
     createFFICallbackPromise
       (\<lambda>resolve reject cb.
          native_call e ''vcx_wallet_send_tokens''
            [JNum 0, JNum payment, JNum tokens, JStr recipient] cb
            (\<lambda>rc. if rc \<noteq> 0 then reject (JNum rc) else skip))
       (\<lambda>resolve reject. Callback ''void'' [''uint32'', ''uint32'', ''string'']
          (\<lambda>(xhandle, err, receipt).
             if err \<noteq> 0 then reject (JNum (uint err)) else resolve receipt))"

definition sendTokens :: "env \<Rightarrow> int \<Rightarrow> int \<Rightarrow> string \<Rightarrow> outcome" where
  "sendTokens e payment tokens recipient =
     (case state (sendTokens_promise e payment tokens recipient) of
        Fulfilled v \<Rightarrow> Returns v
      | Rejected err \<Rightarrow>
          Throws (VCXInternalError err (Some (errorMessage e err)) (Some ''vcx_wallet_send_tokens''))
      | Pending \<Rightarrow> NeverSettles)"

definition addRecord_promise :: "env \<Rightarrow> iRecord \<Rightarrow> bridge" where
  "addRecord_promise e r =
     createFFICallbackPromise
       (\<lambda>resolve reject cb.
          native_call e ''vcx_wallet_add_record''
            [JNum 0, JStr (record_type r), JStr (record_id r), record_value r,
             JSON_stringify e (record_tags r)] cb
            (\<lambda>rc. if rc \<noteq> 0 then reject (JNum rc) else skip))
       (\<lambda>resolve reject. Callback ''void'' [''uint32'', ''uint32'', ''string'']
          (\<lambda>(xhandle, err, receipt).
             if err \<noteq> 0 then reject (JNum (uint err)) else resolve receipt))"

definition addRecord :: "env \<Rightarrow> iRecord \<Rightarrow> outcome" where
  "addRecord e r =
     (case state (addRecord_promise e r) of
        Fulfilled v \<Rightarrow> Returns JUndefined
      | Rejected err \<Rightarrow>
          Throws (VCXInternalError err (Some (errorMessage e err)) (Some ''vcx_wallet_add_record''))
      | Pending \<Rightarrow> NeverSettles)"

definition updateRecordValue_promise :: "env \<Rightarrow> iRecord \<Rightarrow> bridge" where
  "updateRecordValue_promise e r =
     createFFICallbackPromise
       (\<lambda>resolve reject cb.
          native_call e ''vcx_wallet_update_record_value''
            [JNum 0, JStr (record_type r), JStr (record_id r), record_value r] cb
            (\<lambda>rc. if rc \<noteq> 0 then reject (JNum rc) else skip))
       (\<lambda>resolve reject. Callback ''void'' [''uint32'', ''uint32'', ''string'']
          (\<lambda>(xhandle, err, receipt).
             if err \<noteq> 0 then reject (JNum (uint err)) else resolve receipt))"

definition updateRecordValue :: "env \<Rightarrow> iRecord \<Rightarrow> outcome" where
  "updateRecordValue e r =
     (case state (updateRecordValue_promise e r) of
        Fulfilled v \<Rightarrow> Returns JUndefined
      | Rejected err \<Rightarrow>
          Throws (VCXInternalError err (Some (errorMessage e err)) (Some ''vcx_wallet_wallet_update_value''))
      | Pending \<Rightarrow> NeverSettles)"

definition updateRecordTags_promise :: "env \<Rightarrow> iRecord \<Rightarrow> bridge" where
  "updateRecordTags_promise e r =
     createFFICallbackPromise
       (\<lambda>resolve reject cb.
          native_call e ''vcx_wallet_update_record_tags''
            [JNum 0, JStr (record_type r), JStr (record_id r),
             JSON_stringify e (record_tags r)] cb
            (\<lambda>rc. if rc \<noteq> 0 then reject (JNum rc) else skip))
       (\<lambda>resolve reject. Callback ''void'' [''uint32'', ''uint32'', ''string'']
          (\<lambda>(xhandle, err, receipt).
             if err \<noteq> 0 then reject (JNum (uint err)) else resolve receipt))"

definition updateRecordTags :: "env \<Rightarrow> iRecord \<Rightarrow> outcome" where
  "updateRecordTags e r =
     (case state (updateRecordTags_promise e r) of
        Fulfilled v \<Rightarrow> Returns JUndefined
      | Rejected err \<Rightarrow>
          Throws (VCXInternalError err (Some (errorMessage e err)) (Some ''vcx_wallet_wallet_update_tags''))
      | Pending \<Rightarrow> NeverSettles)"

definition addRecordTags_promise :: "env \<Rightarrow> iRecord \<Rightarrow> bridge" where
  "addRecordTags_promise e r =
     createFFICallbackPromise
       (\<lambda>resolve reject cb.
          native_call e ''vcx_wallet_add_record_tags''
            [JNum 0, JStr (record_type r), JStr (record_id r),
             JSON_stringify e (record_tags r)] cb
            (\<lambda>rc. if rc \<noteq> 0 then reject (JNum rc) else skip))
       (\<lambda>resolve reject. Callback ''void'' [''uint32'', ''uint32'', ''string'']
          (\<lambda>(xhandle, err, receipt).
             if err \<noteq> 0 then reject (JNum (uint err)) else resolve receipt))"

definition addRecordTags :: "env \<Rightarrow> iRecord \<Rightarrow> outcome" where
  "addRecordTags e r =
     (case state (addRecordTags_promise e r) of
        Fulfilled v \<Rightarrow> Returns JUndefined
      | Rejected err \<Rightarrow>
          Throws (VCXInternalError err (Some (errorMessage e err)) (Some ''vcx_wallet_wallet_update_tags''))
      | Pending \<Rightarrow> NeverSettles)"

definition deleteRecordTags_promise :: "env \<Rightarrow> iRecord \<Rightarrow> string list \<Rightarrow> bridge" where
  "deleteRecordTags_promise e r tagList =
     createFFICallbackPromise
       (\<lambda>resolve reject cb.
          native_call e ''vcx_wallet_delete_record_tags''
            [JNum 0, JStr (record_type r), JStr (record_id r),
             JSON_stringify e (JArr (map JStr tagList))] cb
            (\<lambda>rc. if rc \<noteq> 0 then reject (JNum rc) else skip))
       (\<lambda>resolve reject. Callback ''void'' [''uint32'', ''uint32'', ''string'']
          (\<lambda>(xhandle, err, receipt).
             if err \<noteq> 0 then reject (JNum (uint err)) else resolve receipt))"

definition deleteRecordTags :: "env \<Rightarrow> iRecord \<Rightarrow> string list \<Rightarrow> outcome" where
  "deleteRecordTags e r tagList =
     (case state (deleteRecordTags_promise e r tagList) of
        Fulfilled v \<Rightarrow> Returns JUndefined
      | Rejected err \<Rightarrow>
          Throws (VCXInternalError err (Some (errorMessage e err)) (Some ''vcx_wallet_wallet_update_tags''))
      | Pending \<Rightarrow> NeverSettles)"

definition deleteRecord_promise :: "env \<Rightarrow> string \<Rightarrow> string \<Rightarrow> bridge" where
  "deleteRecord_promise e type ident =
     createFFICallbackPromise
       (\<lambda>resolve reject cb.
          native_call e ''vcx_wallet_delete_record''
            [JNum 0, JStr type, JStr ident] cb
            (\<lambda>rc. if rc \<noteq> 0 then reject (JNum rc) else skip))
       (\<lambda>resolve reject. Callback ''void'' [''uint32'', ''uint32'', ''string'']
          (\<lambda>(xhandle, err, receipt).
             if err \<noteq> 0 then reject (JNum (uint err)) else resolve receipt))"

definition deleteRecord :: "env \<Rightarrow> string \<Rightarrow> string \<Rightarrow> outcome" where
  "deleteRecord e type ident =
     (case state (deleteRecord_promise e type ident) of
        Fulfilled v \<Rightarrow> Returns JUndefined
      | Rejected err \<Rightarrow>
          Throws (VCXInternalError err (Some (errorMessage e err)) (Some ''vcx_wallet_delete_record''))
      | Pending \<Rightarrow> NeverSettles)"

definition getRecord_promise :: "env \<Rightarrow> string \<Rightarrow> string \<Rightarrow> bridge" where
  "getRecord_promise e type ident =
     createFFICallbackPromise
       (\<lambda>resolve reject cb.
          native_call e ''vcx_wallet_get_record''
            [JNum 0, JStr type, JStr ident] cb
            (\<lambda>rc. if rc \<noteq> 0 then reject (JNum rc) else skip))
       (\<lambda>resolve reject. Callback ''void'' [''uint32'', ''uint32'', ''string'']
          (\<lambda>(xhandle, err, info).
             if err \<noteq> 0 then reject (JNum (uint err)) else resolve info))"

definition getRecord :: "env \<Rightarrow> string \<Rightarrow> string \<Rightarrow> outcome" where
  "getRecord e type ident =
     (case state (getRecord_promise e type ident) of
        Fulfilled v \<Rightarrow> Returns v
      | Rejected err \<Rightarrow>
          Throws (VCXInternalError err (Some (errorMessage e err)) (Some ''vcx_wallet_get_record''))
      | Pending \<Rightarrow> NeverSettles)"

definition openSearch_promise :: "env \<Rightarrow> string \<Rightarrow> string \<Rightarrow> string \<Rightarrow> bridge" where
  "openSearch_promise e type queryJson options =
     createFFICallbackPromise
       (\<lambda>resolve reject cb.
          native_call e ''vcx_wallet_open_search''
            [JNum 0, JStr type, JStr queryJson, JStr options] cb
            (\<lambda>rc. if rc \<noteq> 0 then reject (JNum rc) else skip))
       (\<lambda>resolve reject. Callback ''void'' [''uint32'', ''uint32'', ''uint32'']
          (\<lambda>(xhandle, err, handle).
             if err \<noteq> 0 then reject (JNum (uint err)) else resolve handle))"

definition openSearch :: "env \<Rightarrow> string \<Rightarrow> string \<Rightarrow> string \<Rightarrow> outcome" where
  "openSearch e type queryJson options =
     (case state (openSearch_promise e type queryJson options) of
        Fulfilled v \<Rightarrow> Returns v
      | Rejected err \<Rightarrow>
          Throws (VCXInternalError err (Some (errorMessage e err)) (Some ''vcx_wallet_open_search''))
      | Pending \<Rightarrow> NeverSettles)"

definition closeSearch_promise :: "env \<Rightarrow> int \<Rightarrow> bridge" where
  "closeSearch_promise e handle =
     createFFICallbackPromise
       (\<lambda>resolve reject cb.
          native_call e ''vcx_wallet_close_search''
            [JNum 0, JNum handle] cb
            (\<lambda>rc. if rc \<noteq> 0 then reject (JNum rc) else skip))
       (\<lambda>resolve reject. Callback ''void'' [''uint32'', ''uint32'']
          (\<lambda>(xhandle, err, _).
             if err \<noteq> 0 then reject (JNum (uint err)) else resolve (JNum handle)))"

definition closeSearch :: "env \<Rightarrow> int \<Rightarrow> outcome" where
  "closeSearch e handle =
     (case state (closeSearch_promise e handle) of
        Fulfilled v \<Rightarrow> Returns JUndefined
      | Rejected err \<Rightarrow>
          Throws (VCXInternalError err (Some (errorMessage e err)) (Some ''vcx_wallet_open_search''))
      | Pending \<Rightarrow> NeverSettles)"

definition searchNextRecords_promise :: "env \<Rightarrow> int \<Rightarrow> int \<Rightarrow> bridge" where
  "searchNextRecords_promise e handle count =
     createFFICallbackPromise
       (\<lambda>resolve reject cb.
          native_call e ''vcx_wallet_search_next_records''
            [JNum 0, JNum handle, JNum count] cb
            (\<lambda>rc. if rc \<noteq> 0 then reject (JNum rc) else skip))
       (\<lambda>resolve reject. Callback ''void'' [''uint32'', ''uint32'', ''string'']
          (\<lambda>(xhandle, err, info).
             if err \<noteq> 0 then reject (JNum (uint err)) else resolve info))"

definition searchNextRecords :: "env \<Rightarrow> int \<Rightarrow> int \<Rightarrow> outcome" where
  "searchNextRecords e handle count =
     (case state (searchNextRecords_promise e handle count) of
        Fulfilled v \<Rightarrow> Returns v
      | Rejected err \<Rightarrow>
          Throws (VCXInternalError err (Some (errorMessage e err)) (Some ''vcx_wallet_search_next_records''))
      | Pending \<Rightarrow> NeverSettles)"

section \<open>The domain operations as one type\<close>

text \<open>
  One constructor for each async function of the two files, with its arguments, so that
  a statement can speak of every domain operation.
\<close>

datatype operation =
    ProvisionAgent string iInitVCXOptions
  | UpdateAgentInfo string
  | GetLedgerFees
  | DownloadMessages iDownloadMessagesConfigs
  | UpdateMessages iUpdateMessagesConfigs
  | GetTokenInfo int
  | SendTokens int int string
  | AddRecord iRecord
  | UpdateRecordValue iRecord
  | UpdateRecordTags iRecord
  | AddRecordTags iRecord
  | DeleteRecordTags iRecord "string list"
  | DeleteRecord string string
  | GetRecord string string
  | OpenSearch string string string
  | CloseSearch int
  | SearchNextRecords int int

text \<open>What the Promise returned by the operation does.\<close>

fun run :: "env \<Rightarrow> operation \<Rightarrow> outcome" where
  "run e (ProvisionAgent configAgent options) = provisionAgent e configAgent options"
| "run e (UpdateAgentInfo options) = updateAgentInfo e options"
| "run e GetLedgerFees = getLedgerFees e"
| "run e (DownloadMessages cfg) = downloadMessages e cfg"
| "run e (UpdateMessages cfg) = updateMessages e cfg"
| "run e (GetTokenInfo handle) = getTokenInfo e handle"
| "run e (SendTokens payment tokens recipient) = sendTokens e payment tokens recipient"
| "run e (AddRecord r) = addRecord e r"
| "run e (UpdateRecordValue r) = updateRecordValue e r"
| "run e (UpdateRecordTags r) = updateRecordTags e r"
| "run e (AddRecordTags r) = addRecordTags e r"
| "run e (DeleteRecordTags r tagList) = deleteRecordTags e r tagList"
| "run e (DeleteRecord type ident) = deleteRecord e type ident"
| "run e (GetRecord type ident) = getRecord e type ident"
| "run e (OpenSearch type queryJson options) = openSearch e type queryJson options"
| "run e (CloseSearch handle) = closeSearch e handle"
| "run e (SearchNextRecords handle count) = searchNextRecords e handle count"

text \<open>
  The bridged Promise the operation awaits; \<open>None\<close> when the operation throws before it
  submits anything (\<open>provisionAgent\<close>, when \<open>initRustAPI\<close> throws).
\<close>

fun promise_of :: "env \<Rightarrow> operation \<Rightarrow> bridge option" where
  "promise_of e (ProvisionAgent configAgent options) =
     (case initRustAPI e (libVCXPath options) of
        Some thrown \<Rightarrow> None
      | None \<Rightarrow> Some (provisionAgent_promise e configAgent))"
| "promise_of e (UpdateAgentInfo options) = Some (updateAgentInfo_promise e options)"
| "promise_of e GetLedgerFees = Some (getLedgerFees_promise e)"
| "promise_of e (DownloadMessages cfg) = Some (downloadMessages_promise e cfg)"
| "promise_of e (UpdateMessages cfg) = Some (updateMessages_promise e cfg)"
| "promise_of e (GetTokenInfo handle) = Some (getTokenInfo_promise e handle)"
| "promise_of e (SendTokens payment tokens recipient) =
     Some (sendTokens_promise e payment tokens recipient)"
| "promise_of e (AddRecord r) = Some (addRecord_promise e r)"
| "promise_of e (UpdateRecordValue r) = Some (updateRecordValue_promise e r)"
| "promise_of e (UpdateRecordTags r) = Some (updateRecordTags_promise e r)"
| "promise_of e (AddRecordTags r) = Some (addRecordTags_promise e r)"
| "promise_of e (DeleteRecordTags r tagList) = Some (deleteRecordTags_promise e r tagList)"
| "promise_of e (DeleteRecord type ident) = Some (deleteRecord_promise e type ident)"
| "promise_of e (GetRecord type ident) = Some (getRecord_promise e type ident)"
| "promise_of e (OpenSearch type queryJson options) =
     Some (openSearch_promise e type queryJson options)"
| "promise_of e (CloseSearch handle) = Some (closeSearch_promise e handle)"
| "promise_of e (SearchNextRecords handle count) = Some (searchNextRecords_promise e handle count)"

section \<open>Vocabulary of the statements\<close>

text \<open>
  The operations whose async function returns the value the bridged Promise was
  resolved with, and whose callback resolves it with the result field it receives.
  The others drop the value (\<open>Promise<void>\<close>) or have a callback of two arguments.
\<close>

fun returns_payload :: "operation \<Rightarrow> bool" where
  "returns_payload (ProvisionAgent configAgent options) = True"
| "returns_payload (UpdateAgentInfo options) = True"
| "returns_payload GetLedgerFees = True"
| "returns_payload (DownloadMessages cfg) = True"
| "returns_payload (GetTokenInfo handle) = True"
| "returns_payload (SendTokens payment tokens recipient) = True"
| "returns_payload (GetRecord type ident) = True"
| "returns_payload (OpenSearch type queryJson options) = True"
| "returns_payload (SearchNextRecords handle count) = True"
| "returns_payload _ = False"

text \<open>
  The operations of \<open>api/wallet.ts\<close>, whose \<open>catch\<close> passes a message and a function
  name to the error, and among them those whose function name is the native entry
  point the operation calls.
\<close>

fun wallet_operation :: "operation \<Rightarrow> bool" where
  "wallet_operation (ProvisionAgent configAgent options) = False"
| "wallet_operation (UpdateAgentInfo options) = False"
| "wallet_operation GetLedgerFees = False"
| "wallet_operation (DownloadMessages cfg) = False"
| "wallet_operation (UpdateMessages cfg) = False"
| "wallet_operation _ = True"

fun names_entry_point :: "operation \<Rightarrow> bool" where
  "names_entry_point (GetTokenInfo handle) = True"
| "names_entry_point (SendTokens payment tokens recipient) = True"
| "names_entry_point (AddRecord r) = True"
| "names_entry_point (DeleteRecord type ident) = True"
| "names_entry_point (GetRecord type ident) = True"
| "names_entry_point (OpenSearch type queryJson options) = True"
| "names_entry_point (SearchNextRecords handle count) = True"
| "names_entry_point _ = False"

text \<open>
  What the spec assumes of the native layer (sections 1 and 4.1): a call that reports a
  non-zero status never invokes its callback, a call that reports status 0 invokes it
  exactly once.
\<close>

definition native_contract :: "native_reply \<Rightarrow> bool" where
  "native_contract r = (if status r \<noteq> 0 then callbacks r = [] else length (callbacks r) = 1)"

text \<open>
  The correlation token of a native call is its first argument (section 6 of the spec).
\<close>

definition command_handle :: "string \<times> jsval list \<Rightarrow> jsval" where
  "command_handle c = (case snd c of [] \<Rightarrow> JUndefined | h # _ \<Rightarrow> h)"

text \<open>
  The tokens of the calls that are pending once a program has submitted the operations
  \<open>ops\<close>: every call has a Promise of its own, so the calls do not interfere.
\<close>

definition pending_tokens :: "env \<Rightarrow> operation list \<Rightarrow> jsval list" where
  "pending_tokens e ops =
     concat (map (\<lambda>op. case promise_of e op of
                          None \<Rightarrow> []
                        | Some b \<Rightarrow> if state b = Pending then map command_handle (ffi_calls b) else [])
                 ops)"

text \<open>What a sequence of settlement attempts delivers: the first one decides.\<close>

fun delivered :: "attempt list \<Rightarrow> settlement" where
  "delivered [] = Pending"
| "delivered (Resolve v # _) = Fulfilled v"
| "delivered (Reject x # _) = Rejected x"

section \<open>The runtime binding\<close>

text \<open>
  Modelled from the spec: the Runtime Binding of section 4.4.  \<open>initRustAPI\<close>, \<open>initVcx\<close>
  and \<open>VCXRuntime\<close> are used or tested by the sources but are not among them.  A load
  request names a library path; it fails with \<open>InvalidConfiguration\<close> if the path is
  null, empty, or the library cannot be loaded (\<open>loadable\<close> says which paths can), and
  the binding is then \<open>Uninitialized\<close> again; otherwise the binding passes through
  \<open>Initializing\<close> and becomes \<open>Ready\<close>.  Initializing a \<open>Ready\<close> binding again with the
  same path is a no-op.  The result is \<open>None\<close> where the spec leaves the behaviour open.
\<close>

datatype binding_state = Uninitialized | Initializing | Ready string | ShuttingDown

datatype binding_error = InvalidConfiguration | NotInitialized

fun initialize ::
  "(string \<Rightarrow> bool) \<Rightarrow> string option \<Rightarrow> binding_state \<Rightarrow>
   ((binding_error + unit) \<times> binding_state) option" where
  "initialize loadable path Uninitialized =
     (case path of
        None \<Rightarrow> Some (Inl InvalidConfiguration, Uninitialized)
      | Some p \<Rightarrow>
          if p = [] then Some (Inl InvalidConfiguration, Uninitialized)
          else if loadable p then Some (Inr (), Ready p)
          else Some (Inl InvalidConfiguration, Uninitialized))"
| "initialize loadable path (Ready q) =
     (if path = Some q then Some (Inr (), Ready q) else None)"
| "initialize loadable path Initializing = None"
| "initialize loadable path ShuttingDown = None"

section \<open>Sample inputs\<close>

text \<open>
  A native layer that answers every call with status \<open>rc\<close> and then invokes the
  callback as \<open>cbs\<close> lists, and a wallet record.
\<close>

definition replying :: "int \<Rightarrow> cb_args list \<Rightarrow> env" where
  "replying rc cbs =
     \<lparr>rustAPI = (\<lambda>fname args. \<lparr>status = rc, callbacks = cbs\<rparr>),
      errorMessage = (\<lambda>err. ''Unknown Error''),
      initRustAPI = (\<lambda>path. None),
      JSON_stringify = (\<lambda>v. JStr ''{}'')\<rparr>"

definition sample_record :: iRecord where
  "sample_record = \<lparr>record_type = ''t'', record_id = ''1'', record_value = JStr ''v'', record_tags = JObj []\<rparr>"

section \<open>Normal form of a bridged call\<close>

text \<open>
  Every call site has the same submitting closure and one of three callbacks.  The
  definitions of this section name these shapes; the lemmas after them show that each
  operation's Promise is of this form.
\<close>

definition settler :: "task \<Rightarrow> bool" where
  "settler t = ((\<exists>v. t = resolve v) \<or> (\<exists>c. c \<noteq> 0 \<and> t = reject (JNum c)))"

definition submitted :: "env \<Rightarrow> string \<Rightarrow> jsval list \<Rightarrow> bridge" where
  "submitted e fname args =
     (if status (rustAPI e fname args) \<noteq> 0 then reject (JNum (status (rustAPI e fname args))) else skip)
       (new_promise\<lparr>ffi_calls := [(fname, args)]\<rparr>)"

definition bridged :: "env \<Rightarrow> string \<Rightarrow> jsval list \<Rightarrow> (cb_args \<Rightarrow> task) \<Rightarrow> bridge" where
  "bridged e fname args K =
     fold (\<lambda>t. t) (map K (callbacks (rustAPI e fname args))) (submitted e fname args)"

definition payload_cb :: "cb_args \<Rightarrow> task" where
  "payload_cb = (\<lambda>(xhandle, err, p). if err \<noteq> 0 then reject (JNum (uint err)) else resolve p)"

definition status_cb :: "cb_args \<Rightarrow> task" where
  "status_cb = (\<lambda>(xhandle, err, p). if err \<noteq> 0 then reject (JNum (uint err)) else resolve (JNum (uint err)))"

definition handle_cb :: "int \<Rightarrow> cb_args \<Rightarrow> task" where
  "handle_cb h = (\<lambda>(xhandle, err, p). if err \<noteq> 0 then reject (JNum (uint err)) else resolve (JNum h))"

section \<open>Helper lemmas\<close>

lemmas promise_defs = provisionAgent_promise_def updateAgentInfo_promise_def getLedgerFees_promise_def
  downloadMessages_promise_def updateMessages_promise_def getTokenInfo_promise_def sendTokens_promise_def
  addRecord_promise_def updateRecordValue_promise_def updateRecordTags_promise_def addRecordTags_promise_def
  deleteRecordTags_promise_def deleteRecord_promise_def getRecord_promise_def openSearch_promise_def
  closeSearch_promise_def searchNextRecords_promise_def

lemmas op_defs = provisionAgent_def updateAgentInfo_def getLedgerFees_def
  downloadMessages_def updateMessages_def getTokenInfo_def sendTokens_def
  addRecord_def updateRecordValue_def updateRecordTags_def addRecordTags_def
  deleteRecordTags_def deleteRecord_def getRecord_def openSearch_def
  closeSearch_def searchNextRecords_def

lemmas eval_defs = promise_defs op_defs createFFICallbackPromise_def native_call_def Callback_def
  new_promise_def resolve_def reject_def skip_def replying_def Let_def

lemma bridge_unfold:
  "createFFICallbackPromise
     (\<lambda>rs rj cb. native_call e fname args cb (\<lambda>rc. if rc \<noteq> 0 then rj (JNum rc) else skip)) C =
   fold (\<lambda>t. t) (map (C resolve reject) (callbacks (rustAPI e fname args))) (submitted e fname args)"
  by (simp add: createFFICallbackPromise_def native_call_def Let_def submitted_def new_promise_def)

lemma settler_resolve [simp]: "settler (resolve v)"
  by (auto simp: settler_def)

lemma settler_reject [simp]: "c \<noteq> 0 \<Longrightarrow> settler (reject (JNum c))"
  by (auto simp: settler_def)

lemma settler_reject_word [simp]: "c \<noteq> 0 \<Longrightarrow> settler (reject (JNum (uint c)))"
  by (simp add: uint_0_iff)

lemma settler_rejected_numeric:
  "settler t \<Longrightarrow> \<forall>x. state b = Rejected x \<longrightarrow> (\<exists>c. x = JNum c \<and> c \<noteq> 0) \<Longrightarrow>
   \<forall>x. state (t b) = Rejected x \<longrightarrow> (\<exists>c. x = JNum c \<and> c \<noteq> 0)"
  by (auto simp: settler_def resolve_def reject_def split: settlement.splits)

lemma settler_sticky: "settler t \<Longrightarrow> state b \<noteq> Pending \<Longrightarrow> state (t b) = state b"
  by (auto simp: settler_def resolve_def reject_def split: settlement.splits)

lemma settler_attempts: "settler t \<Longrightarrow> length (attempts (t b)) = Suc (length (attempts b))"
  by (auto simp: settler_def resolve_def reject_def)

lemma settler_ffi_calls: "settler t \<Longrightarrow> ffi_calls (t b) = ffi_calls b"
  by (auto simp: settler_def resolve_def reject_def)

lemma settler_delivered:
  "settler t \<Longrightarrow> state b = delivered (attempts b) \<Longrightarrow> state (t b) = delivered (attempts (t b))"
  by (cases "attempts b" rule: delivered.cases)
     (auto simp: settler_def resolve_def reject_def)

lemma fold_sticky:
  "\<forall>t\<in>set ts. settler t \<Longrightarrow> state b \<noteq> Pending \<Longrightarrow> state (fold (\<lambda>t. t) ts b) = state b"
  by (induction ts arbitrary: b) (simp_all add: settler_sticky)

lemma fold_attempts:
  "\<forall>t\<in>set ts. settler t \<Longrightarrow> length (attempts (fold (\<lambda>t. t) ts b)) = length (attempts b) + length ts"
  by (induction ts arbitrary: b) (simp_all add: settler_attempts)

lemma fold_ffi_calls:
  "\<forall>t\<in>set ts. settler t \<Longrightarrow> ffi_calls (fold (\<lambda>t. t) ts b) = ffi_calls b"
  by (induction ts arbitrary: b) (simp_all add: settler_ffi_calls)

lemma fold_delivered:
  "\<forall>t\<in>set ts. settler t \<Longrightarrow> state b = delivered (attempts b) \<Longrightarrow>
   state (fold (\<lambda>t. t) ts b) = delivered (attempts (fold (\<lambda>t. t) ts b))"
  by (induction ts arbitrary: b) (simp_all add: settler_delivered)

lemma fold_inv:
  assumes "P b" and "\<And>a b. P b \<Longrightarrow> P (K a b)"
  shows "P (fold (\<lambda>t. t) (map K cbs) b)"
  using assms(1) by (induction cbs arbitrary: b) (simp_all add: assms(2))

lemma submitted_facts:
  "ffi_calls (submitted e fname args) = [(fname, args)]"
  "state (submitted e fname args) =
     (if status (rustAPI e fname args) \<noteq> 0 then Rejected (JNum (status (rustAPI e fname args))) else Pending)"
  "attempts (submitted e fname args) =
     (if status (rustAPI e fname args) \<noteq> 0 then [Reject (JNum (status (rustAPI e fname args)))] else [])"
  by (simp_all add: submitted_def new_promise_def reject_def skip_def)

lemma submitted_not_fulfilled: "state (submitted e f args) \<noteq> Fulfilled v"
  by (simp add: submitted_facts)

lemma Callback3:
  "Callback r [t1, t2, t3] (\<lambda>(xhandle, err, p). if err \<noteq> 0 then reject (JNum (uint err)) else resolve p) = payload_cb"
  by (auto simp: Callback_def payload_cb_def fun_eq_iff)

lemma Callback2_status:
  "Callback r [t1, t2] (\<lambda>(xhandle, err, _). if err \<noteq> 0 then reject (JNum (uint err)) else resolve (JNum (uint err))) = status_cb"
  by (auto simp: Callback_def status_cb_def fun_eq_iff)

lemma Callback2_handle:
  "Callback r [t1, t2] (\<lambda>(xhandle, err, _). if err \<noteq> 0 then reject (JNum (uint err)) else resolve (JNum h)) = handle_cb h"
  by (auto simp: Callback_def handle_cb_def fun_eq_iff)

lemma settler_payload_cb [simp]: "settler (payload_cb a)"
  by (cases a) (simp add: payload_cb_def)

lemma settler_status_cb [simp]: "settler (status_cb a)"
  by (cases a) (simp add: status_cb_def)

lemma settler_handle_cb [simp]: "settler (handle_cb h a)"
  by (cases a) (simp add: handle_cb_def)

lemma provisionAgent_bridged:
  "provisionAgent_promise e configAgent =
     bridged e ''vcx_agent_provision_async''
       [JNum 0, JStr configAgent] payload_cb"
  by (simp add: provisionAgent_promise_def bridge_unfold Callback3 Callback2_status Callback2_handle bridged_def)

lemma updateAgentInfo_bridged:
  "updateAgentInfo_promise e options =
     bridged e ''vcx_agent_update_info''
       [JNum 0, JStr options] payload_cb"
  by (simp add: updateAgentInfo_promise_def bridge_unfold Callback3 Callback2_status Callback2_handle bridged_def)

lemma getLedgerFees_bridged:
  "getLedgerFees_promise e =
     bridged e ''vcx_ledger_get_fees''
       [JNum 0] payload_cb"
  by (simp add: getLedgerFees_promise_def bridge_unfold Callback3 Callback2_status Callback2_handle bridged_def)

lemma downloadMessages_bridged:
  "downloadMessages_promise e cfg =
     bridged e ''vcx_messages_download''
       [JNum 0, JStr (msgStatus cfg), JStr (uids cfg), JStr (pairwiseDids cfg)] payload_cb"
  by (simp add: downloadMessages_promise_def bridge_unfold Callback3 Callback2_status Callback2_handle bridged_def)

lemma updateMessages_bridged:
  "updateMessages_promise e cfg =
     bridged e ''vcx_messages_update_status''
       [JNum 0, JStr ''MS-106'', JStr (msgJson cfg)] status_cb"
  by (simp add: updateMessages_promise_def bridge_unfold Callback3 Callback2_status Callback2_handle bridged_def)

lemma getTokenInfo_bridged:
  "getTokenInfo_promise e handle =
     bridged e ''vcx_wallet_get_token_info''
       [JNum 0, JNum handle] payload_cb"
  by (simp add: getTokenInfo_promise_def bridge_unfold Callback3 Callback2_status Callback2_handle bridged_def)

lemma sendTokens_bridged:
  "sendTokens_promise e payment tokens recipient =
     bridged e ''vcx_wallet_send_tokens''
       [JNum 0, JNum payment, JNum tokens, JStr recipient] payload_cb"
  by (simp add: sendTokens_promise_def bridge_unfold Callback3 Callback2_status Callback2_handle bridged_def)

lemma addRecord_bridged:
  "addRecord_promise e r =
     bridged e ''vcx_wallet_add_record''
       [JNum 0, JStr (record_type r), JStr (record_id r), record_value r, JSON_stringify e (record_tags r)] payload_cb"
  by (simp add: addRecord_promise_def bridge_unfold Callback3 Callback2_status Callback2_handle bridged_def)

lemma updateRecordValue_bridged:
  "updateRecordValue_promise e r =
     bridged e ''vcx_wallet_update_record_value''
       [JNum 0, JStr (record_type r), JStr (record_id r), record_value r] payload_cb"
  by (simp add: updateRecordValue_promise_def bridge_unfold Callback3 Callback2_status Callback2_handle bridged_def)

lemma updateRecordTags_bridged:
  "updateRecordTags_promise e r =
     bridged e ''vcx_wallet_update_record_tags''
       [JNum 0, JStr (record_type r), JStr (record_id r), JSON_stringify e (record_tags r)] payload_cb"
  by (simp add: updateRecordTags_promise_def bridge_unfold Callback3 Callback2_status Callback2_handle bridged_def)

lemma addRecordTags_bridged:
  "addRecordTags_promise e r =
     bridged e ''vcx_wallet_add_record_tags''
       [JNum 0, JStr (record_type r), JStr (record_id r), JSON_stringify e (record_tags r)] payload_cb"
  by (simp add: addRecordTags_promise_def bridge_unfold Callback3 Callback2_status Callback2_handle bridged_def)

lemma deleteRecordTags_bridged:
  "deleteRecordTags_promise e r tagList =
     bridged e ''vcx_wallet_delete_record_tags''
       [JNum 0, JStr (record_type r), JStr (record_id r), JSON_stringify e (JArr (map JStr tagList))] payload_cb"
  by (simp add: deleteRecordTags_promise_def bridge_unfold Callback3 Callback2_status Callback2_handle bridged_def)

lemma deleteRecord_bridged:
  "deleteRecord_promise e type ident =
     bridged e ''vcx_wallet_delete_record''
       [JNum 0, JStr type, JStr ident] payload_cb"
  by (simp add: deleteRecord_promise_def bridge_unfold Callback3 Callback2_status Callback2_handle bridged_def)

lemma getRecord_bridged:
  "getRecord_promise e type ident =
     bridged e ''vcx_wallet_get_record''
       [JNum 0, JStr type, JStr ident] payload_cb"
  by (simp add: getRecord_promise_def bridge_unfold Callback3 Callback2_status Callback2_handle bridged_def)

lemma openSearch_bridged:
  "openSearch_promise e type queryJson options =
     bridged e ''vcx_wallet_open_search''
       [JNum 0, JStr type, JStr queryJson, JStr options] payload_cb"
  by (simp add: openSearch_promise_def bridge_unfold Callback3 Callback2_status Callback2_handle bridged_def)

lemma closeSearch_bridged:
  "closeSearch_promise e handle =
     bridged e ''vcx_wallet_close_search''
       [JNum 0, JNum handle] (handle_cb handle)"
  by (simp add: closeSearch_promise_def bridge_unfold Callback3 Callback2_status Callback2_handle bridged_def)

lemma searchNextRecords_bridged:
  "searchNextRecords_promise e handle count =
     bridged e ''vcx_wallet_search_next_records''
       [JNum 0, JNum handle, JNum count] payload_cb"
  by (simp add: searchNextRecords_promise_def bridge_unfold Callback3 Callback2_status Callback2_handle bridged_def)

lemmas bridged_lemmas = provisionAgent_bridged updateAgentInfo_bridged getLedgerFees_bridged
  downloadMessages_bridged updateMessages_bridged getTokenInfo_bridged sendTokens_bridged
  addRecord_bridged updateRecordValue_bridged updateRecordTags_bridged addRecordTags_bridged
  deleteRecordTags_bridged deleteRecord_bridged getRecord_bridged openSearch_bridged
  closeSearch_bridged searchNextRecords_bridged

lemma settlers_map: "(\<And>a. settler (K a)) \<Longrightarrow> \<forall>t\<in>set (map K cbs). settler t"
  by simp

lemma bridged_ffi_calls:
  assumes "\<And>a. settler (K a)"
  shows "ffi_calls (bridged e f args K) = [(f, args)]"
  unfolding bridged_def
  by (simp only: fold_ffi_calls [OF settlers_map [of K, OF assms]] submitted_facts)

lemma bridged_rejected_at_submission:
  assumes "\<And>a. settler (K a)" and "status (rustAPI e f args) \<noteq> 0"
  shows "state (bridged e f args K) = Rejected (JNum (status (rustAPI e f args)))"
proof -
  have "state (submitted e f args) \<noteq> Pending"
    using assms(2) by (simp add: submitted_facts)
  then show ?thesis
    unfolding bridged_def
    using fold_sticky [OF settlers_map [of K, OF assms(1)]] assms(2)
    by (simp add: submitted_facts)
qed

lemma bridged_no_callback:
  "status (rustAPI e f args) = 0 \<Longrightarrow> callbacks (rustAPI e f args) = [] \<Longrightarrow>
   state (bridged e f args K) = Pending"
  by (simp add: bridged_def submitted_facts)

lemma bridged_first_callback:
  assumes "\<And>a. settler (K a)" and "status (rustAPI e f args) = 0"
    and "callbacks (rustAPI e f args) = a # rest"
  shows "state (bridged e f args K) = state (K a (submitted e f args))"
proof -
  have "state (K a (submitted e f args)) \<noteq> Pending"
    using assms(1) [of a]
    by (auto simp: settler_def resolve_def reject_def split: settlement.splits)
  then have "state (fold (\<lambda>t. t) (map K rest) (K a (submitted e f args))) = state (K a (submitted e f args))"
    by (rule fold_sticky [OF settlers_map [of K, OF assms(1)]])
  then show ?thesis
    using assms(3) by (simp add: bridged_def)
qed

lemma bridged_first_payload:
  assumes "status (rustAPI e f args) = 0" and "callbacks (rustAPI e f args) = (x, c, p) # rest"
  shows "state (bridged e f args payload_cb) =
     (if c \<noteq> 0 then Rejected (JNum (uint c)) else Fulfilled p)"
proof -
  have "state (bridged e f args payload_cb) = state (payload_cb (x, c, p) (submitted e f args))"
    using assms by (intro bridged_first_callback) simp_all
  also have "\<dots> = (if c \<noteq> 0 then Rejected (JNum (uint c)) else Fulfilled p)"
    using assms(1) by (simp add: payload_cb_def submitted_facts resolve_def reject_def)
  finally show ?thesis .
qed

lemma bridged_first_status:
  assumes "status (rustAPI e f args) = 0" and "callbacks (rustAPI e f args) = (x, c, p) # rest"
  shows "state (bridged e f args status_cb) =
     (if c \<noteq> 0 then Rejected (JNum (uint c)) else Fulfilled (JNum 0))"
proof -
  have "state (bridged e f args status_cb) = state (status_cb (x, c, p) (submitted e f args))"
    using assms by (intro bridged_first_callback) simp_all
  also have "\<dots> = (if c \<noteq> 0 then Rejected (JNum (uint c)) else Fulfilled (JNum 0))"
    using assms(1) by (simp add: status_cb_def submitted_facts resolve_def reject_def)
  finally show ?thesis .
qed

lemma bridged_first_handle:
  assumes "status (rustAPI e f args) = 0" and "callbacks (rustAPI e f args) = (x, c, p) # rest"
  shows "state (bridged e f args (handle_cb h)) =
     (if c \<noteq> 0 then Rejected (JNum (uint c)) else Fulfilled (JNum h))"
proof -
  have "state (bridged e f args (handle_cb h)) = state ((handle_cb h) (x, c, p) (submitted e f args))"
    using assms by (intro bridged_first_callback) simp_all
  also have "\<dots> = (if c \<noteq> 0 then Rejected (JNum (uint c)) else Fulfilled (JNum h))"
    using assms(1) by (simp add: handle_cb_def submitted_facts resolve_def reject_def)
  finally show ?thesis .
qed

lemma bridged_delivered:
  assumes "\<And>a. settler (K a)"
  shows "state (bridged e f args K) = delivered (attempts (bridged e f args K))"
  unfolding bridged_def
  by (rule fold_delivered [OF settlers_map [of K, OF assms]]) (simp add: submitted_facts)

lemma bridged_attempts:
  assumes "\<And>a. settler (K a)"
  shows "length (attempts (bridged e f args K)) =
     (if status (rustAPI e f args) \<noteq> 0 then 1 else 0) + length (callbacks (rustAPI e f args))"
  unfolding bridged_def
  by (simp add: fold_attempts [OF settlers_map [of K, OF assms]] submitted_facts)

lemma bridgedI:
  "(\<And>a. settler (K a)) \<Longrightarrow>
   \<exists>f' rest' K'. bridged e f (JNum 0 # rest) K = bridged e f' (JNum 0 # rest') K' \<and> (\<forall>a. settler (K' a))"
  by blast

lemma promise_of_bridged:
  "promise_of e op = Some b \<Longrightarrow>
   \<exists>f rest K. b = bridged e f (JNum 0 # rest) K \<and> (\<forall>a. settler (K a))"
  by (cases op; clarsimp simp: bridged_lemmas simp del: split_paired_All split_paired_Ex split: option.splits;
      rule bridgedI; simp)

lemma promise_of_call:
  assumes "promise_of e op = Some b" and "ffi_calls b = [(fname, args)]"
  shows "\<exists>rest K. b = bridged e fname args K \<and> args = JNum 0 # rest \<and> (\<forall>a. settler (K a))"
proof -
  obtain f rest K where b: "b = bridged e f (JNum 0 # rest) K" and K: "\<And>a. settler (K a)"
    using promise_of_bridged [OF assms(1)] by blast
  have "ffi_calls b = [(f, JNum 0 # rest)]"
    unfolding b using K by (rule bridged_ffi_calls)
  with assms(2) have "f = fname" and "args = JNum 0 # rest"
    by simp_all
  with b K show ?thesis
    by blast
qed

lemma rejected_at_submission:
  assumes "promise_of e op = Some b" and "ffi_calls b = [(fname, args)]"
    and "status (rustAPI e fname args) \<noteq> 0"
  shows "state b = Rejected (JNum (status (rustAPI e fname args)))"
proof -
  obtain rest K where b: "b = bridged e fname args K" and K: "\<And>a. settler (K a)"
    using promise_of_call [OF assms(1,2)] by blast
  show ?thesis
    unfolding b using K assms(3) by (rule bridged_rejected_at_submission)
qed

lemma ffi_calls_of:
  "promise_of e op = Some b \<Longrightarrow> \<exists>fname rest. ffi_calls b = [(fname, JNum 0 # rest)]"
  using promise_of_bridged [of e op b] bridged_ffi_calls by blast

lemma first_callback_state:
  assumes "promise_of e op = Some b" and "ffi_calls b = [(fname, args)]"
    and "status (rustAPI e fname args) = 0"
    and "callbacks (rustAPI e fname args) = (x, c, p) # rest"
  shows "state b =
     (if c \<noteq> 0 then Rejected (JNum (uint c))
      else Fulfilled (case op of UpdateMessages cfg \<Rightarrow> JNum 0 | CloseSearch h \<Rightarrow> JNum h | _ \<Rightarrow> p))"
proof -
  have call: "\<And>f a K. b = bridged e f a K \<Longrightarrow> (\<And>a. settler (K a)) \<Longrightarrow> f = fname \<and> a = args"
    using assms(2) bridged_ffi_calls by fastforce
  show ?thesis
    using assms(1)
  proof (cases op)
    case (UpdateMessages cfg)
    with assms(1) have b: "b = bridged e ''vcx_messages_update_status'' [JNum 0, JStr ''MS-106'', JStr (msgJson cfg)] status_cb"
      by (simp add: bridged_lemmas)
    from call [OF b] have "''vcx_messages_update_status'' = fname \<and> [JNum 0, JStr ''MS-106'', JStr (msgJson cfg)] = args"
      by simp
    then show ?thesis
      using bridged_first_status [of e fname args x c p rest] assms(3,4) b UpdateMessages by auto
  next
    case (CloseSearch h)
    with assms(1) have b: "b = bridged e ''vcx_wallet_close_search'' [JNum 0, JNum h] (handle_cb h)"
      by (simp add: bridged_lemmas)
    from call [OF b] have "''vcx_wallet_close_search'' = fname \<and> [JNum 0, JNum h] = args"
      by simp
    then show ?thesis
      using bridged_first_handle [of e fname args x c p rest h] assms(3,4) b CloseSearch by auto
  qed (insert assms call bridged_first_payload [of e fname args x c p rest],
       auto simp: bridged_lemmas split: option.splits)
qed

lemma run_rejected:
  "promise_of e op = Some b \<Longrightarrow> state b = Rejected x \<Longrightarrow>
   \<exists>err. run e op = Throws err \<and> vcxCode err = x"
  by (cases op) (auto simp: op_defs split: option.splits)

lemma run_fulfilled:
  "promise_of e op = Some b \<Longrightarrow> state b = Fulfilled v \<Longrightarrow>
   run e op = Returns (if returns_payload op then v
                       else case op of UpdateMessages cfg \<Rightarrow> v | _ \<Rightarrow> JUndefined)"
  by (cases op) (auto simp: op_defs split: option.splits)

lemma run_pending:
  "promise_of e op = Some b \<Longrightarrow> state b = Pending \<longleftrightarrow> run e op = NeverSettles"
  by (cases op) (auto simp: op_defs split: option.splits settlement.splits)

lemma run_same:
  "promise_of e1 op = Some b1 \<Longrightarrow> promise_of e2 op = Some b2 \<Longrightarrow> state b1 = state b2 \<Longrightarrow>
   errorMessage e1 = errorMessage e2 \<Longrightarrow> run e1 op = run e2 op"
  by (cases op) (auto simp: op_defs split: option.splits settlement.splits)

lemma status_cb_zero:
  "\<forall>v. state b = Fulfilled v \<longrightarrow> v = JNum 0 \<Longrightarrow>
   \<forall>v. state (status_cb a b) = Fulfilled v \<longrightarrow> v = JNum 0"
  by (cases a) (auto simp: status_cb_def resolve_def reject_def split: settlement.splits)

lemma handle_cb_handle:
  "\<forall>v. state b = Fulfilled v \<longrightarrow> v = JNum h \<Longrightarrow>
   \<forall>v. state (handle_cb h a b) = Fulfilled v \<longrightarrow> v = JNum h"
  by (cases a) (auto simp: handle_cb_def resolve_def reject_def split: settlement.splits)

lemma updateMessages_fulfilled:
  "state (updateMessages_promise e cfg) = Fulfilled v \<Longrightarrow> v = JNum 0"
proof -
  have "\<forall>v. state (updateMessages_promise e cfg) = Fulfilled v \<longrightarrow> v = JNum 0"
    unfolding updateMessages_bridged bridged_def
    by (rule fold_inv [where P = "\<lambda>b. \<forall>v. state b = Fulfilled v \<longrightarrow> v = JNum 0"])
       (simp_all add: submitted_not_fulfilled status_cb_zero)
  then show "state (updateMessages_promise e cfg) = Fulfilled v \<Longrightarrow> v = JNum 0"
    by blast
qed

lemma closeSearch_fulfilled:
  "state (closeSearch_promise e h) = Fulfilled v \<Longrightarrow> v = JNum h"
proof -
  have "\<forall>v. state (closeSearch_promise e h) = Fulfilled v \<longrightarrow> v = JNum h"
    unfolding closeSearch_bridged bridged_def
    by (rule fold_inv [where P = "\<lambda>b. \<forall>v. state b = Fulfilled v \<longrightarrow> v = JNum h"])
       (simp_all add: submitted_not_fulfilled handle_cb_handle)
  then show "state (closeSearch_promise e h) = Fulfilled v \<Longrightarrow> v = JNum h"
    by blast
qed

lemma fold_attempts_prefix:
  "\<forall>t\<in>set ts. settler t \<Longrightarrow> \<exists>more. attempts (fold (\<lambda>t. t) ts b) = attempts b @ more"
proof (induction ts arbitrary: b)
  case Nil
  then show ?case by simp
next
  case (Cons t ts)
  then obtain more where "attempts (fold (\<lambda>t. t) ts (t b)) = attempts (t b) @ more"
    by fastforce
  moreover have "\<exists>a. attempts (t b) = attempts b @ [a]"
    using Cons.prems by (auto simp: settler_def resolve_def reject_def)
  ultimately show ?case by auto
qed

lemma first_attempt_at_submission:
  assumes "promise_of e op = Some b" and "ffi_calls b = [(fname, args)]"
    and "status (rustAPI e fname args) \<noteq> 0"
  shows "take 1 (attempts b) = [Reject (JNum (status (rustAPI e fname args)))]"
proof -
  obtain rest K where b: "b = bridged e fname args K" and K: "\<And>a. settler (K a)"
    using promise_of_call [OF assms(1,2)] by blast
  obtain more where "attempts b = attempts (submitted e fname args) @ more"
    unfolding b bridged_def using fold_attempts_prefix [OF settlers_map [of K, OF K]] by blast
  then show ?thesis
    using assms(3) by (simp add: submitted_facts)
qed

section \<open>The claims\<close>

text \<open>
  C10.  \<open>updateInstitutionConfigs\<close> returns 0 whenever it returns normally: if the
  status of the native call is non-zero it throws an error carrying that status, and
  otherwise the value returned is 0.
\<close>

theorem updateInstitutionConfigs_result:
  "(status (rustAPI e ''vcx_update_institution_info'' [JStr (name cfg), JStr (logoUrl cfg)]) \<noteq> 0 \<longrightarrow>
      updateInstitutionConfigs e cfg =
        Inl (VCXInternalError
              (JNum (status (rustAPI e ''vcx_update_institution_info''
                       [JStr (name cfg), JStr (logoUrl cfg)])))
              None None)) \<and>
   (status (rustAPI e ''vcx_update_institution_info'' [JStr (name cfg), JStr (logoUrl cfg)]) = 0 \<longrightarrow>
      updateInstitutionConfigs e cfg = Inr 0) \<and>
   (updateInstitutionConfigs e cfg = Inr v \<longrightarrow> v = 0)"
  by (auto simp: updateInstitutionConfigs_def Let_def split: if_splits)

text \<open>
  C10 at a native layer that reports status 1004, and at one that reports 0.
\<close>

theorem updateInstitutionConfigs_result_witness:
  "updateInstitutionConfigs (replying 1004 []) \<lparr>name = ''Faber'', logoUrl = ''http://faber.example/logo''\<rparr> =
     Inl (VCXInternalError (JNum 1004) None None) \<and>
   updateInstitutionConfigs (replying 0 []) \<lparr>name = ''Faber'', logoUrl = ''http://faber.example/logo''\<rparr> =
     Inr 0"
proof -
  let ?cfg = "\<lparr>name = ''Faber'', logoUrl = ''http://faber.example/logo''\<rparr>"
  have f: "status (rustAPI (replying 1004 []) ''vcx_update_institution_info''
             [JStr (name ?cfg), JStr (logoUrl ?cfg)]) \<noteq> 0"
    by (simp add: replying_def)
  have z: "status (rustAPI (replying 0 []) ''vcx_update_institution_info''
             [JStr (name ?cfg), JStr (logoUrl ?cfg)]) = 0"
    by (simp add: replying_def)
  show ?thesis
    using f z updateInstitutionConfigs_result [of "replying 1004 []" ?cfg 0]
      updateInstitutionConfigs_result [of "replying 0 []" ?cfg 0]
    by (simp add: replying_def)
qed

text \<open>
  C8.  Whenever \<open>updateMessages\<close> completes successfully, the value its Promise
  resolves with is 0: the success branch of the callback resolves with the callback's
  error code, which is 0 on that branch.
\<close>

theorem updateMessages_resolves_zero:
  "updateMessages e cfg = Returns v \<Longrightarrow> v = JNum 0"
  using updateMessages_fulfilled [of e cfg]
  by (auto simp: updateMessages_def split: settlement.splits)

text \<open>
  C8 at a call that is accepted (status 0) and completes with error code 0: the
  operation does return, and it returns 0.
\<close>

theorem updateMessages_resolves_zero_witness:
  "\<exists>v. updateMessages (replying 0 [(0, 0, JUndefined)]) \<lparr>msgJson = ''[]''\<rparr> = Returns v \<and> v = JNum 0"
proof -
  have r: "updateMessages (replying 0 [(0, 0, JUndefined)]) \<lparr>msgJson = ''[]''\<rparr> = Returns (JNum 0)"
    by (simp add: eval_defs)
  from updateMessages_resolves_zero [OF r] r show ?thesis by simp
qed

text \<open>
  C9.  Whenever \<open>Wallet.closeSearch\<close> completes successfully, the underlying bridged
  Promise (declared to produce \<open>void\<close>) was resolved with the search handle that was
  passed in, and the async function itself returns \<open>undefined\<close>.  When it fails, the
  error names the native function \<open>vcx_wallet_open_search\<close>, although the native
  call that was made is \<open>vcx_wallet_close_search\<close>.
\<close>

theorem closeSearch_outcomes:
  "(closeSearch e handle = Returns v \<longrightarrow>
      v = JUndefined \<and> state (closeSearch_promise e handle) = Fulfilled (JNum handle)) \<and>
   (closeSearch e handle = Throws err \<longrightarrow>
      vcxFunction err = Some ''vcx_wallet_open_search'' \<and>
      ffi_calls (closeSearch_promise e handle) =
        [(''vcx_wallet_close_search'', [JNum 0, JNum handle])])"
  using closeSearch_fulfilled [of e handle]
  by (auto simp: closeSearch_def closeSearch_bridged bridged_ffi_calls split: settlement.splits)

text \<open>
  C9 at search handle 5: once with a call that completes with error code 0, once with
  a call that completes with error code 1.
\<close>

theorem closeSearch_outcomes_witness:
  "closeSearch (replying 0 [(0, 0, JUndefined)]) 5 = Returns JUndefined \<and>
   state (closeSearch_promise (replying 0 [(0, 0, JUndefined)]) 5) = Fulfilled (JNum 5) \<and>
   closeSearch (replying 0 [(0, 1, JUndefined)]) 5 =
     Throws (VCXInternalError (JNum 1) (Some ''Unknown Error'') (Some ''vcx_wallet_open_search'')) \<and>
   vcxFunction (VCXInternalError (JNum 1) (Some ''Unknown Error'') (Some ''vcx_wallet_open_search'')) =
     Some ''vcx_wallet_open_search'' \<and>
   ffi_calls (closeSearch_promise (replying 0 [(0, 1, JUndefined)]) 5) =
     [(''vcx_wallet_close_search'', [JNum 0, JNum 5])]"
proof -
  have ok: "closeSearch (replying 0 [(0, 0, JUndefined)]) 5 = Returns JUndefined"
    by (simp add: eval_defs)
  have ko: "closeSearch (replying 0 [(0, 1, JUndefined)]) 5 =
      Throws (VCXInternalError (JNum 1) (Some ''Unknown Error'') (Some ''vcx_wallet_open_search''))"
    by (simp add: eval_defs)
  show ?thesis
    using ok ko
      closeSearch_outcomes [of "replying 0 [(0, 0, JUndefined)]" 5 JUndefined
        "VCXInternalError (JNum 1) (Some ''Unknown Error'') (Some ''vcx_wallet_open_search'')"]
      closeSearch_outcomes [of "replying 0 [(0, 1, JUndefined)]" 5 JUndefined
        "VCXInternalError (JNum 1) (Some ''Unknown Error'') (Some ''vcx_wallet_open_search'')"]
    by simp
qed

text \<open>
  C2.  For every domain operation, if the native call returns a non-zero immediate
  status \<open>rc\<close>, the bridged Promise is rejected with \<open>rc\<close> and the operation throws an
  error carrying \<open>rc\<close>.  The completion callback is not relied upon: the rejection is
  the first settlement attempt, made by the submitting closure, and the result is the
  same whatever callbacks the native layer invokes afterwards.
\<close>

theorem submission_failure_rejects:
  assumes "promise_of e op = Some b" and "ffi_calls b = [(fname, args)]"
    and "status (rustAPI e fname args) = rc" and "rc \<noteq> 0"
  shows "state b = Rejected (JNum rc) \<and>
         take 1 (attempts b) = [Reject (JNum rc)] \<and>
         (\<exists>err. run e op = Throws err \<and> vcxCode err = JNum rc)"
proof -
  have st: "state b = Rejected (JNum rc)"
    using rejected_at_submission [OF assms(1,2)] assms(3,4) by simp
  have "take 1 (attempts b) = [Reject (JNum rc)]"
    using first_attempt_at_submission [OF assms(1,2)] assms(3,4) by simp
  with st run_rejected [OF assms(1) st] show ?thesis by simp
qed

text \<open>
  C2 at \<open>Wallet.getTokenInfo\<close> with a native layer that reports status 1 and still
  invokes the callback with a success afterwards.
\<close>

theorem submission_failure_rejects_witness:
  "state (getTokenInfo_promise (replying 1 [(0, 0, JStr ''late'')]) 7) = Rejected (JNum 1) \<and>
   take 1 (attempts (getTokenInfo_promise (replying 1 [(0, 0, JStr ''late'')]) 7)) = [Reject (JNum 1)] \<and>
   (\<exists>err. run (replying 1 [(0, 0, JStr ''late'')]) (GetTokenInfo 7) = Throws err \<and> vcxCode err = JNum 1)"
proof -
  let ?e = "replying 1 [(0, 0, JStr ''late'')]"
  have h1: "promise_of ?e (GetTokenInfo 7) = Some (getTokenInfo_promise ?e 7)"
    by simp
  have h2: "ffi_calls (getTokenInfo_promise ?e 7) = [(''vcx_wallet_get_token_info'', [JNum 0, JNum 7])]"
    by (simp add: eval_defs)
  have h3: "status (rustAPI ?e ''vcx_wallet_get_token_info'' [JNum 0, JNum 7]) = 1"
    by (simp add: replying_def)
  have h4: "(1::int) \<noteq> 0"
    by simp
  show ?thesis
    by (rule submission_failure_rejects [OF h1 h2 h3 h4])
qed

text \<open>
  C3.  For every domain operation and every non-zero code \<open>c\<close>, a native call that
  reports the immediate status \<open>c\<close> and a native call that is accepted and completes
  with error code \<open>c\<close> make the operation throw the same error: the caller cannot tell
  a failure to submit from a failure during execution.
\<close>

theorem submission_and_callback_failure_agree:
  assumes "promise_of e1 op = Some b1" and "ffi_calls b1 = [(f1, a1)]"
    and "status (rustAPI e1 f1 a1) = uint c"
    and "promise_of e2 op = Some b2" and "ffi_calls b2 = [(f2, a2)]"
    and "status (rustAPI e2 f2 a2) = 0" and "callbacks (rustAPI e2 f2 a2) = (x, c, p) # rest"
    and "c \<noteq> 0" and "errorMessage e1 = errorMessage e2"
  shows "run e1 op = run e2 op \<and> (\<exists>err. run e1 op = Throws err \<and> vcxCode err = JNum (uint c))"
proof -
  have nz: "uint c \<noteq> 0"
    using assms(8) by (simp add: uint_0_iff)
  have s1: "state b1 = Rejected (JNum (uint c))"
    using rejected_at_submission [OF assms(1,2)] assms(3) nz by simp
  have s2: "state b2 = Rejected (JNum (uint c))"
    using first_callback_state [OF assms(4,5,6,7)] assms(8) by simp
  have "run e1 op = run e2 op"
    using assms(1,4) _ assms(9) by (rule run_same) (simp add: s1 s2)
  with run_rejected [OF assms(1) s1] show ?thesis by simp
qed

text \<open>
  C3 at \<open>Wallet.openSearch\<close> and code 1: rejected at submission, and rejected by the
  callback.
\<close>

theorem submission_and_callback_failure_agree_witness:
  "run (replying 1 []) (OpenSearch ''t'' ''{}'' ''{}'') =
     run (replying 0 [(0, 1, JNum 0)]) (OpenSearch ''t'' ''{}'' ''{}'') \<and>
   (\<exists>err. run (replying 1 []) (OpenSearch ''t'' ''{}'' ''{}'') = Throws err \<and> vcxCode err = JNum (uint (1 :: 32 word)))"
proof -
  let ?e1 = "replying 1 []" and ?e2 = "replying 0 [(0, 1, JNum 0)]"
  let ?op = "OpenSearch ''t'' ''{}'' ''{}''"
  let ?f = "''vcx_wallet_open_search''" and ?a = "[JNum 0, JStr ''t'', JStr ''{}'', JStr ''{}'']"
  have h1: "promise_of ?e1 ?op = Some (openSearch_promise ?e1 ''t'' ''{}'' ''{}'')"
    by simp
  have h2: "ffi_calls (openSearch_promise ?e1 ''t'' ''{}'' ''{}'') = [(?f, ?a)]"
    by (simp add: eval_defs)
  have h3: "status (rustAPI ?e1 ?f ?a) = uint (1 :: 32 word)"
    by (simp add: replying_def)
  have h4: "promise_of ?e2 ?op = Some (openSearch_promise ?e2 ''t'' ''{}'' ''{}'')"
    by simp
  have h5: "ffi_calls (openSearch_promise ?e2 ''t'' ''{}'' ''{}'') = [(?f, ?a)]"
    by (simp add: eval_defs)
  have h6: "status (rustAPI ?e2 ?f ?a) = 0"
    by (simp add: replying_def)
  have h7: "callbacks (rustAPI ?e2 ?f ?a) = (0, 1, JNum 0) # []"
    by (simp add: replying_def)
  have h8: "(1 :: 32 word) \<noteq> 0"
    by simp
  have h9: "errorMessage ?e1 = errorMessage ?e2"
    by (simp add: replying_def)
  show ?thesis
    by (rule submission_and_callback_failure_agree [OF h1 h2 h3 h4 h5 h6 h7 h8 h9])
qed

text \<open>
  C1, as amended.  If the native call's immediate status is 0 and the completion
  callback is then invoked with error code 0 and a payload \<open>p\<close>, the Promise returned
  by each of the nine operations that return the bridged value (\<open>provisionAgent\<close>,
  \<open>updateAgentInfo\<close>, \<open>getLedgerFees\<close>, \<open>downloadMessages\<close>, \<open>Wallet.getTokenInfo\<close>,
  \<open>sendTokens\<close>, \<open>getRecord\<close>, \<open>openSearch\<close>, \<open>searchNextRecords\<close>) resolves with exactly
  \<open>p\<close>.  The other operations resolve with \<open>undefined\<close> (\<open>updateMessages\<close>: with 0);
  the bridged Promise underneath is resolved with \<open>p\<close> for all but \<open>updateMessages\<close>
  and \<open>closeSearch\<close>, whose callbacks take no payload.
\<close>

theorem payload_returned_by_value_operations:
  assumes "promise_of e op = Some b" and "ffi_calls b = [(fname, args)]"
    and "status (rustAPI e fname args) = 0"
    and "callbacks (rustAPI e fname args) = (x, 0, p) # rest"
  shows "(returns_payload op \<longrightarrow> run e op = Returns p) \<and>
         (\<not> returns_payload op \<longrightarrow>
            run e op = Returns (case op of UpdateMessages cfg \<Rightarrow> JNum 0 | _ \<Rightarrow> JUndefined)) \<and>
         ((\<exists>cfg. op = UpdateMessages cfg) \<or> (\<exists>h. op = CloseSearch h) \<or> state b = Fulfilled p)"
proof -
  have st: "state b = Fulfilled (case op of UpdateMessages cfg \<Rightarrow> JNum 0 | CloseSearch h \<Rightarrow> JNum h | _ \<Rightarrow> p)"
    using first_callback_state [OF assms] by simp
  show ?thesis
    using run_fulfilled [OF assms(1) st] st by (cases op) simp_all
qed

text \<open>
  C1 as amended, at \<open>Wallet.getTokenInfo\<close> and at \<open>Wallet.addRecord\<close>, both completing
  with error code 0 and payload \<open>"ok"\<close>.
\<close>

theorem payload_returned_by_value_operations_witness:
  "run (replying 0 [(0, 0, JStr ''ok'')]) (GetTokenInfo 7) = Returns (JStr ''ok'') \<and>
   run (replying 0 [(0, 0, JStr ''ok'')]) (AddRecord sample_record) = Returns JUndefined \<and>
   state (addRecord_promise (replying 0 [(0, 0, JStr ''ok'')]) sample_record) = Fulfilled (JStr ''ok'')"
proof -
  let ?e = "replying 0 [(0, 0, JStr ''ok'')]"
  have g1: "promise_of ?e (GetTokenInfo 7) = Some (getTokenInfo_promise ?e 7)" by simp
  have g2: "ffi_calls (getTokenInfo_promise ?e 7) = [(''vcx_wallet_get_token_info'', [JNum 0, JNum 7])]"
    by (simp add: eval_defs)
  have g3: "status (rustAPI ?e ''vcx_wallet_get_token_info'' [JNum 0, JNum 7]) = 0"
    by (simp add: replying_def)
  have g4: "callbacks (rustAPI ?e ''vcx_wallet_get_token_info'' [JNum 0, JNum 7]) = (0, 0, JStr ''ok'') # []"
    by (simp add: replying_def)
  let ?a = "[JNum 0, JStr ''t'', JStr ''1'', JStr ''v'', JStr ''{}'']"
  have a1: "promise_of ?e (AddRecord sample_record) = Some (addRecord_promise ?e sample_record)" by simp
  have a2: "ffi_calls (addRecord_promise ?e sample_record) = [(''vcx_wallet_add_record'', ?a)]"
    by (simp add: eval_defs sample_record_def)
  have a3: "status (rustAPI ?e ''vcx_wallet_add_record'' ?a) = 0"
    by (simp add: replying_def)
  have a4: "callbacks (rustAPI ?e ''vcx_wallet_add_record'' ?a) = (0, 0, JStr ''ok'') # []"
    by (simp add: replying_def)
  show ?thesis
    using payload_returned_by_value_operations [OF g1 g2 g3 g4] payload_returned_by_value_operations [OF a1 a2 a3 a4] by simp
qed

text \<open>
  C1 as first stated (the Promise returned by every domain operation resolves with the
  payload) fails at \<open>Wallet.addRecord\<close>: the call is accepted, the callback delivers
  \<open>"ok"\<close>, and the operation resolves with \<open>undefined\<close>.
\<close>

theorem addRecord_drops_payload:
  "\<not> (\<forall>e op b fname args x p rest.
        promise_of e op = Some b \<longrightarrow> ffi_calls b = [(fname, args)] \<longrightarrow>
        status (rustAPI e fname args) = 0 \<longrightarrow>
        callbacks (rustAPI e fname args) = (x, 0, p) # rest \<longrightarrow>
        run e op = Returns p)"
proof
  let ?e = "replying 0 [(0, 0, JStr ''ok'')]"
  let ?a = "[JNum 0, JStr ''t'', JStr ''1'', JStr ''v'', JStr ''{}'']"
  assume all: "\<forall>e op b fname args x p rest.
        promise_of e op = Some b \<longrightarrow> ffi_calls b = [(fname, args)] \<longrightarrow>
        status (rustAPI e fname args) = 0 \<longrightarrow>
        callbacks (rustAPI e fname args) = (x, 0, p) # rest \<longrightarrow>
        run e op = Returns p"
  have a1: "promise_of ?e (AddRecord sample_record) = Some (addRecord_promise ?e sample_record)" by simp
  have a2: "ffi_calls (addRecord_promise ?e sample_record) = [(''vcx_wallet_add_record'', ?a)]"
    by (simp add: eval_defs sample_record_def)
  have a3: "status (rustAPI ?e ''vcx_wallet_add_record'' ?a) = 0"
    by (simp add: replying_def)
  have a4: "callbacks (rustAPI ?e ''vcx_wallet_add_record'' ?a) = (0, 0, JStr ''ok'') # []"
    by (simp add: replying_def)
  from all a1 a2 a3 a4 have "run ?e (AddRecord sample_record) = Returns (JStr ''ok'')"
    by blast
  moreover have "run ?e (AddRecord sample_record) = Returns JUndefined"
    by (simp add: eval_defs sample_record_def)
  ultimately show False by simp
qed

lemma bridged_cong_xhandle:
  assumes "status (rustAPI e' f a) = status (rustAPI e f a)"
    and "map snd (callbacks (rustAPI e' f a)) = map snd (callbacks (rustAPI e f a))"
    and "\<And>x y r. K (x, r) = K (y, r)"
  shows "bridged e' f a K = bridged e f a K"
proof -
  have K: "map K cbs = map (\<lambda>r. K (0, r)) (map snd cbs)" for cbs
    using assms(3) by (induction cbs) auto
  have "submitted e' f a = submitted e f a"
    using assms(1) by (simp add: submitted_def)
  moreover have "map K (callbacks (rustAPI e' f a)) = map K (callbacks (rustAPI e f a))"
    using K [of "callbacks (rustAPI e' f a)"] K [of "callbacks (rustAPI e f a)"] assms(2) by simp
  ultimately show ?thesis
    by (simp add: bridged_def)
qed

lemma payload_cb_xhandle: "payload_cb (x, r) = payload_cb (y, r)"
  by (cases r) (simp add: payload_cb_def)

lemma status_cb_xhandle: "status_cb (x, r) = status_cb (y, r)"
  by (cases r) (simp add: status_cb_def)

lemma handle_cb_xhandle: "handle_cb h (x, r) = handle_cb h (y, r)"
  by (cases r) (simp add: handle_cb_def)

lemma xhandle_ignored:
  assumes "promise_of e op = Some b" and "ffi_calls b = [(fname, args)]"
    and "status (rustAPI e' fname args) = status (rustAPI e fname args)"
    and "map snd (callbacks (rustAPI e' fname args)) = map snd (callbacks (rustAPI e fname args))"
    and "initRustAPI e' = initRustAPI e" and "JSON_stringify e' = JSON_stringify e"
  shows "promise_of e' op = Some b"
  using assms
  by (cases op)
     (auto simp: bridged_lemmas bridged_ffi_calls split: option.splits
           intro!: bridged_cong_xhandle payload_cb_xhandle status_cb_xhandle handle_cb_xhandle)

text \<open>
  C5, as amended.  Every call a domain operation submits is tagged with the constant
  command handle 0; no token is minted.  Hence every pending call bears the token 0,
  and calls that are pending at the same time bear the same token.  The completion
  callback of a call does not read the token it is invoked with: the Promise of the
  call, and what the operation returns or throws, are the same whatever command
  handles the native layer passes back.
\<close>

theorem command_handle_is_zero:
  "(promise_of e op = Some b \<longrightarrow> map command_handle (ffi_calls b) = [JNum 0]) \<and>
   set (pending_tokens e ops) \<subseteq> {JNum 0} \<and>
   (promise_of e op = Some b \<and> ffi_calls b = [(fname, args)] \<and>
    status (rustAPI e' fname args) = status (rustAPI e fname args) \<and>
    map snd (callbacks (rustAPI e' fname args)) = map snd (callbacks (rustAPI e fname args)) \<and>
    errorMessage e' = errorMessage e \<and> initRustAPI e' = initRustAPI e \<and>
    JSON_stringify e' = JSON_stringify e \<longrightarrow>
      promise_of e' op = Some b \<and> run e' op = run e op)"
proof -
  have one: "map command_handle (ffi_calls b) = [JNum 0]" if "promise_of e op = Some b" for op b
    using ffi_calls_of [OF that] by (auto simp: command_handle_def)
  have el: "command_handle c = JNum 0" if "promise_of e op = Some b" and "c \<in> set (ffi_calls b)" for op b c
    using ffi_calls_of [OF that(1)] that(2) by (auto simp: command_handle_def)
  have el': "command_handle (f, a) = JNum 0" if "Some b = promise_of e op" and "(f, a) \<in> set (ffi_calls b)" for op b f a
    using el [OF that(1) [symmetric] that(2)] .
  have "t = JNum 0" if "t \<in> set (pending_tokens e ops)" for t
    using that el' by (auto simp: pending_tokens_def split: option.splits if_splits)
  then have tokens: "set (pending_tokens e ops) \<subseteq> {JNum 0}"
    by blast
  have same: "promise_of e' op = Some b \<and> run e' op = run e op"
    if p: "promise_of e op = Some b" and c: "ffi_calls b = [(fname, args)]"
      and s: "status (rustAPI e' fname args) = status (rustAPI e fname args)"
      and m: "map snd (callbacks (rustAPI e' fname args)) = map snd (callbacks (rustAPI e fname args))"
      and em: "errorMessage e' = errorMessage e" and i: "initRustAPI e' = initRustAPI e"
      and j: "JSON_stringify e' = JSON_stringify e"
  proof -
    have p': "promise_of e' op = Some b"
      using p c s m i j by (rule xhandle_ignored)
    have "run e' op = run e op"
      using p' p _ em by (rule run_same) simp
    with p' show ?thesis by simp
  qed
  from one tokens same show ?thesis by blast
qed

text \<open>
  C5 as amended, at \<open>Wallet.getTokenInfo\<close>: while its call is pending, and when the
  callback comes back tagged 99 instead of 0.
\<close>

theorem command_handle_is_zero_witness:
  "map command_handle (ffi_calls (getTokenInfo_promise (replying 0 [(0, 0, JStr ''ok'')]) 7)) = [JNum 0] \<and>
   set (pending_tokens (replying 0 [(0, 0, JStr ''ok'')]) [GetTokenInfo 7, CloseSearch 5]) \<subseteq> {JNum 0} \<and>
   promise_of (replying 0 [(99, 0, JStr ''ok'')]) (GetTokenInfo 7) =
     Some (getTokenInfo_promise (replying 0 [(0, 0, JStr ''ok'')]) 7) \<and>
   run (replying 0 [(99, 0, JStr ''ok'')]) (GetTokenInfo 7) =
     run (replying 0 [(0, 0, JStr ''ok'')]) (GetTokenInfo 7) \<and>
   run (replying 0 [(0, 0, JStr ''ok'')]) (GetTokenInfo 7) = Returns (JStr ''ok'')"
proof -
  let ?e = "replying 0 [(0, 0, JStr ''ok'')]" and ?e' = "replying 0 [(99, 0, JStr ''ok'')]"
  let ?f = "''vcx_wallet_get_token_info''" and ?a = "[JNum 0, JNum 7]"
  have h1: "promise_of ?e (GetTokenInfo 7) = Some (getTokenInfo_promise ?e 7)"
    by simp
  have h2: "ffi_calls (getTokenInfo_promise ?e 7) = [(?f, ?a)]"
    by (simp add: eval_defs)
  have h3: "status (rustAPI ?e' ?f ?a) = status (rustAPI ?e ?f ?a)"
    by (simp add: replying_def)
  have h4: "map snd (callbacks (rustAPI ?e' ?f ?a)) = map snd (callbacks (rustAPI ?e ?f ?a))"
    by (simp add: replying_def)
  have h5: "errorMessage ?e' = errorMessage ?e" "initRustAPI ?e' = initRustAPI ?e"
    "JSON_stringify ?e' = JSON_stringify ?e"
    by (simp_all add: replying_def)
  have r: "run ?e (GetTokenInfo 7) = Returns (JStr ''ok'')"
    by (simp add: eval_defs)
  show ?thesis
    using h1 h2 h3 h4 h5 r
      command_handle_is_zero [where e = ?e and op = "GetTokenInfo 7"
        and b = "getTokenInfo_promise ?e 7" and ops = "[GetTokenInfo 7, CloseSearch 5]"
        and fname = ?f and args = ?a and e' = ?e']
    by simp
qed

text \<open>
  C5 as first stated (at most one pending call owns a given token) fails once two
  operations have been submitted and neither callback has arrived: both pending calls
  own the token 0.
\<close>

theorem pending_calls_share_token:
  "pending_tokens (replying 0 []) [AddRecord sample_record, OpenSearch ''t'' ''{}'' ''{}''] = [JNum 0, JNum 0] \<and>
   \<not> distinct (pending_tokens (replying 0 []) [AddRecord sample_record, OpenSearch ''t'' ''{}'' ''{}''])"
  by (simp add: pending_tokens_def command_handle_def eval_defs sample_record_def)

text \<open>
  C7.  For every submitted call the delivered outcome is that of the first settlement
  attempt; once the Promise is settled, a further \<open>resolve\<close> or \<open>reject\<close> has no effect
  on it.  With a native layer that keeps to its contract (no callback after a non-zero
  status, exactly one callback after status 0) exactly one of \<open>resolve\<close> and \<open>reject\<close>
  is called, exactly once, and the call does settle.
\<close>

theorem settled_exactly_once:
  assumes "promise_of e op = Some b" and "ffi_calls b = [(fname, args)]"
  shows "state b = delivered (attempts b) \<and>
         (native_contract (rustAPI e fname args) \<longrightarrow>
            length (attempts b) = 1 \<and> state b \<noteq> Pending \<and> run e op \<noteq> NeverSettles) \<and>
         (state b \<noteq> Pending \<longrightarrow>
            (\<forall>v. state (resolve v b) = state b \<and> state (reject v b) = state b))"
proof -
  obtain rest K where b: "b = bridged e fname args K" and K: "\<And>a. settler (K a)"
    using promise_of_call [OF assms] by blast
  have d: "state b = delivered (attempts b)"
    unfolding b using K by (rule bridged_delivered)
  have n: "length (attempts b) =
      (if status (rustAPI e fname args) \<noteq> 0 then 1 else 0) + length (callbacks (rustAPI e fname args))"
    unfolding b using K by (rule bridged_attempts)
  have once: "length (attempts b) = 1" if "native_contract (rustAPI e fname args)"
    using that n by (auto simp: native_contract_def split: if_splits)
  have settled: "state b \<noteq> Pending" if "length (attempts b) = 1"
    using that d by (cases "attempts b" rule: delivered.cases) simp_all
  have sticky: "state (resolve v b) = state b \<and> state (reject v b) = state b" if "state b \<noteq> Pending" for v
    using that by (simp add: resolve_def reject_def split: settlement.splits)
  show ?thesis
    using d once settled sticky run_pending [OF assms(1)] by blast
qed

text \<open>
  C7 at \<open>Wallet.getTokenInfo\<close> with a call that is accepted and completes once, with
  payload \<open>"ok"\<close>.
\<close>

theorem settled_exactly_once_witness:
  "state (getTokenInfo_promise (replying 0 [(0, 0, JStr ''ok'')]) 7) = Fulfilled (JStr ''ok'') \<and>
   attempts (getTokenInfo_promise (replying 0 [(0, 0, JStr ''ok'')]) 7) = [Resolve (JStr ''ok'')] \<and>
   length (attempts (getTokenInfo_promise (replying 0 [(0, 0, JStr ''ok'')]) 7)) = 1 \<and>
   run (replying 0 [(0, 0, JStr ''ok'')]) (GetTokenInfo 7) \<noteq> NeverSettles \<and>
   state (reject (JNum 1) (getTokenInfo_promise (replying 0 [(0, 0, JStr ''ok'')]) 7)) = Fulfilled (JStr ''ok'')"
proof -
  let ?e = "replying 0 [(0, 0, JStr ''ok'')]"
  have h1: "promise_of ?e (GetTokenInfo 7) = Some (getTokenInfo_promise ?e 7)"
    by simp
  have h2: "ffi_calls (getTokenInfo_promise ?e 7) = [(''vcx_wallet_get_token_info'', [JNum 0, JNum 7])]"
    by (simp add: eval_defs)
  have h3: "native_contract (rustAPI ?e ''vcx_wallet_get_token_info'' [JNum 0, JNum 7])"
    by (simp add: native_contract_def replying_def)
  have h4: "state (getTokenInfo_promise ?e 7) = Fulfilled (JStr ''ok'')"
    by (simp add: eval_defs)
  have h5: "attempts (getTokenInfo_promise ?e 7) = [Resolve (JStr ''ok'')]"
    by (simp add: eval_defs)
  show ?thesis
    using settled_exactly_once [OF h1 h2] h3 h4 h5 by simp
qed

text \<open>
  C6.  Initializing the runtime binding with a null, empty or unloadable library path
  fails with \<open>InvalidConfiguration\<close> and leaves the binding \<open>Uninitialized\<close>.
\<close>

theorem invalid_path_leaves_uninitialized:
  "path = None \<or> path = Some [] \<or> (\<exists>p. path = Some p \<and> \<not> loadable p) \<Longrightarrow>
   initialize loadable path Uninitialized = Some (Inl InvalidConfiguration, Uninitialized)"
  by auto

text \<open>
  C6 at the null path, the empty path and \<open>invalidPath\<close>, where only
  \<open>/usr/lib/libvcx.so\<close> can be loaded.
\<close>

theorem invalid_path_leaves_uninitialized_witness:
  "initialize (\<lambda>p. p = ''/usr/lib/libvcx.so'') None Uninitialized =
     Some (Inl InvalidConfiguration, Uninitialized) \<and>
   initialize (\<lambda>p. p = ''/usr/lib/libvcx.so'') (Some []) Uninitialized =
     Some (Inl InvalidConfiguration, Uninitialized) \<and>
   initialize (\<lambda>p. p = ''/usr/lib/libvcx.so'') (Some ''invalidPath'') Uninitialized =
     Some (Inl InvalidConfiguration, Uninitialized)"
proof -
  let ?l = "\<lambda>p. p = ''/usr/lib/libvcx.so''"
  have a: "(None :: string option) = None \<or> (None :: string option) = Some [] \<or>
      (\<exists>p. (None :: string option) = Some p \<and> \<not> ?l p)"
    by simp
  have b: "Some [] = (None :: string option) \<or> Some [] = Some ([] :: string) \<or>
      (\<exists>p. Some [] = Some p \<and> \<not> ?l p)"
    by simp
  have c: "Some ''invalidPath'' = None \<or> Some ''invalidPath'' = Some [] \<or>
      (\<exists>p. Some ''invalidPath'' = Some p \<and> \<not> ?l p)"
    by simp
  show ?thesis
    using invalid_path_leaves_uninitialized [OF a] invalid_path_leaves_uninitialized [OF b]
      invalid_path_leaves_uninitialized [OF c]
    by blast
qed

lemma rejected_numeric:
  assumes "promise_of e op = Some b" and "state b = Rejected x"
  shows "\<exists>c. x = JNum c \<and> c \<noteq> 0"
proof -
  obtain f rest K where b: "b = bridged e f (JNum 0 # rest) K" and K: "\<And>a. settler (K a)"
    using promise_of_bridged [OF assms(1)] by blast
  have "\<forall>x. state b = Rejected x \<longrightarrow> (\<exists>c. x = JNum c \<and> c \<noteq> 0)"
    unfolding b bridged_def
    by (rule fold_inv [where P = "\<lambda>b. \<forall>x. state b = Rejected x \<longrightarrow> (\<exists>c. x = JNum c \<and> c \<noteq> 0)"])
       (simp_all add: submitted_facts settler_rejected_numeric [OF K])
  with assms(2) show ?thesis by blast
qed

lemma run_throws:
  "promise_of e op = Some b \<Longrightarrow> run e op = Throws err \<Longrightarrow>
   state b = Rejected (vcxCode err) \<and>
   (if wallet_operation op
    then vcxMessage err = Some (errorMessage e (vcxCode err)) \<and> vcxFunction err \<noteq> None
    else vcxMessage err = None \<and> vcxFunction err = None)"
  by (cases op) (auto simp: op_defs split: option.splits settlement.splits)

lemma run_throws_named:
  "promise_of e op = Some b \<Longrightarrow> run e op = Throws err \<Longrightarrow> names_entry_point op \<Longrightarrow>
   \<exists>f args. vcxFunction err = Some f \<and> ffi_calls b = [(f, args)]"
  by (cases op)
     (auto simp: op_defs bridged_lemmas bridged_ffi_calls split: option.splits settlement.splits)

text \<open>
  C4, as amended.  Every error a domain operation throws after it has submitted its
  call carries the code the bridged Promise was rejected with, a non-zero number.  The
  operations of \<open>api/wallet.ts\<close> also pass the message \<open>errorMessage\<close> gives for that
  code and a native function name, which for \<open>getTokenInfo\<close>, \<open>sendTokens\<close>,
  \<open>addRecord\<close>, \<open>deleteRecord\<close>, \<open>getRecord\<close>, \<open>openSearch\<close> and \<open>searchNextRecords\<close> is the
  entry point that was called.  The operations of \<open>api/utils.ts\<close> pass the code alone,
  with no message and no function name.
\<close>

theorem surfaced_error_contents:
  assumes "promise_of e op = Some b" and "run e op = Throws err"
  shows "state b = Rejected (vcxCode err) \<and>
         (\<exists>c. vcxCode err = JNum c \<and> c \<noteq> 0) \<and>
         (if wallet_operation op
          then vcxMessage err = Some (errorMessage e (vcxCode err)) \<and> vcxFunction err \<noteq> None
          else vcxMessage err = None \<and> vcxFunction err = None) \<and>
         (names_entry_point op \<longrightarrow>
            (\<exists>f args. vcxFunction err = Some f \<and> ffi_calls b = [(f, args)]))"
proof -
  have t: "state b = Rejected (vcxCode err) \<and>
     (if wallet_operation op
      then vcxMessage err = Some (errorMessage e (vcxCode err)) \<and> vcxFunction err \<noteq> None
      else vcxMessage err = None \<and> vcxFunction err = None)"
    using assms by (rule run_throws)
  then have "\<exists>c. vcxCode err = JNum c \<and> c \<noteq> 0"
    using rejected_numeric [OF assms(1)] by blast
  with t run_throws_named [OF assms] show ?thesis
    by blast
qed

text \<open>
  C4 as amended, at \<open>Wallet.getTokenInfo\<close> and at \<open>updateAgentInfo\<close>, both rejected at
  submission with status 1.
\<close>

theorem surfaced_error_contents_witness:
  "run (replying 1 []) (GetTokenInfo 7) =
     Throws (VCXInternalError (JNum 1) (Some ''Unknown Error'') (Some ''vcx_wallet_get_token_info'')) \<and>
   state (getTokenInfo_promise (replying 1 []) 7) = Rejected (JNum 1) \<and>
   (\<exists>args. ffi_calls (getTokenInfo_promise (replying 1 []) 7) = [(''vcx_wallet_get_token_info'', args)]) \<and>
   run (replying 1 []) (UpdateAgentInfo ''{}'') = Throws (VCXInternalError (JNum 1) None None) \<and>
   state (updateAgentInfo_promise (replying 1 []) ''{}'') = Rejected (JNum 1)"
proof -
  let ?e = "replying 1 []"
  have g1: "promise_of ?e (GetTokenInfo 7) = Some (getTokenInfo_promise ?e 7)"
    by simp
  have g2: "run ?e (GetTokenInfo 7) =
      Throws (VCXInternalError (JNum 1) (Some ''Unknown Error'') (Some ''vcx_wallet_get_token_info''))"
    by (simp add: eval_defs)
  have u1: "promise_of ?e (UpdateAgentInfo ''{}'') = Some (updateAgentInfo_promise ?e ''{}'')"
    by simp
  have u2: "run ?e (UpdateAgentInfo ''{}'') = Throws (VCXInternalError (JNum 1) None None)"
    by (simp add: eval_defs)
  show ?thesis
    using g2 u2 surfaced_error_contents [OF g1 g2] surfaced_error_contents [OF u1 u2]
    by simp
qed

text \<open>
  C4 as first stated (every error carries a message and the name of the native function
  that failed) fails at \<open>updateAgentInfo\<close>: rejected with status 1, it throws an error
  that was given the code alone.
\<close>

theorem updateAgentInfo_error_has_code_only:
  "run (replying 1 []) (UpdateAgentInfo ''{}'') = Throws (VCXInternalError (JNum 1) None None) \<and>
   ffi_calls (updateAgentInfo_promise (replying 1 []) ''{}'') =
     [(''vcx_agent_update_info'', [JNum 0, JStr ''{}''])]"
  by (simp add: eval_defs)

end
